theory Spec2Isabelle
  imports Complex_Main "HOL-Library.Sublist"
begin

section \<open>JavaScript values, thrown values and the event trace\<close>

text \<open>
  The values that cross the wallet provider's interface are JavaScript values. Numbers
  are the safe integers, those of magnitude below \<open>2^53\<close>: each of them is a double, and
  a template literal prints it in decimal. Objects are plain objects, as an association
  list of their own properties; no value of the model is a function.
\<close>

typedef safe_int = "{n :: int. \<bar>n\<bar> < 9007199254740992}"
  morphisms int_of_safe safe_of_int
  by (rule exI[of _ 0]) simp

datatype jsval =
    JUndefined
  | JNull
  | JBool bool
  | JNum safe_int
  | JStr string
  | JArr "jsval list"
  | JObj "(string \<times> jsval) list"

text \<open>
  What a \<open>throw\<close> or a rejected promise carries: an instance of \<open>Error\<close> with its
  message, or any other value.
\<close>

datatype thrown = JsError string | Thrown jsval

type_synonym 'a result = "thrown + 'a"

record request =
  method' :: string
  params :: "jsval list"

text \<open>
  The \<open>Donation\<close> interface of the contract hook: the \<open>bigint\<close> members are integers.
\<close>

record Donation =
  targetAmount :: int
  totalDonated :: int
  creator :: string
  timestamp :: int
  description :: string

text \<open>
  The effects of the code, in the order they happen: a \<open>provider.request\<close> call, a
  \<open>setTimeout\<close> wait that has elapsed, a read of the contract through the public
  client, and the state setters of the React components.
\<close>

datatype event =
    Request request
  | Sleep int
  | ReadContract string "int list"
  | SetError string
  | SetIsLoading bool
  | IncRefreshTrigger
  | SetDonations "(int \<times> Donation) list"
  | SetIsLoadingDonations bool
  | SetListError string

fun requests :: "event list \<Rightarrow> request list" where
  "requests [] = []"
| "requests (Request r # es) = r # requests es"
| "requests (_ # es) = requests es"

text \<open>
  A wallet provider is \<open>null\<close>, an object without a \<open>request\<close> member, or an object
  whose \<open>request\<close> answers each call by resolving or rejecting. The answer may depend
  on every request made before: the provider is the most general deterministic
  environment. Every request is taken to settle.
\<close>

datatype provider =
    NullProvider
  | NoRequest
  | HasRequest "request list \<Rightarrow> request \<Rightarrow> jsval result"

subsection \<open>Built-in operations of the language\<close>

definition digit_char :: "nat \<Rightarrow> char" where
  "digit_char d = char_of (48 + d)"

fun show_nat :: "nat \<Rightarrow> string" where
  "show_nat n = (if n < 10 then [digit_char n] else show_nat (n div 10) @ [digit_char (n mod 10)])"

declare show_nat.simps [simp del]

definition show_int :: "int \<Rightarrow> string" where
  "show_int i = (if i < 0 then CHR ''-'' # show_nat (nat (- i)) else show_nat (nat i))"

fun join_comma :: "string list \<Rightarrow> string" where
  "join_comma [] = []"
| "join_comma [s] = s"
| "join_comma (s # t # ss) = s @ '','' @ join_comma (t # ss)"

text \<open>
  \<open>ToString\<close>, as a template literal applies it; it can throw. An object is converted
  by its \<open>toString\<close> method: a plain object inherits one, which gives \<open>[object Object]\<close>,
  unless it has an own member of that name, which is no function here, and then neither
  it nor \<open>valueOf\<close> yields a primitive value and a \<open>TypeError\<close> is raised (the message is
  the one of V8). An array joins the conversions of its elements, taken in order, with
  commas, \<open>null\<close> and \<open>undefined\<close> counting as empty.
\<close>

fun join_all :: "string result list \<Rightarrow> string list result" where
  "join_all [] = Inr []"
| "join_all (Inl e # rs) = Inl e"
| "join_all (Inr s # rs) = (case join_all rs of Inl e \<Rightarrow> Inl e | Inr ss \<Rightarrow> Inr (s # ss))"

fun to_string :: "jsval \<Rightarrow> string result" where
  "to_string JUndefined = Inr ''undefined''"
| "to_string JNull = Inr ''null''"
| "to_string (JBool b) = Inr (if b then ''true'' else ''false'')"
| "to_string (JNum n) = Inr (show_int (int_of_safe n))"
| "to_string (JStr s) = Inr s"
| "to_string (JArr xs) =
     (case join_all (map (\<lambda>x. if x = JUndefined \<or> x = JNull then Inr [] else to_string x) xs) of
        Inl e \<Rightarrow> Inl e
      | Inr ss \<Rightarrow> Inr (join_comma ss))"
| "to_string (JObj kvs) =
     (if ''toString'' \<in> fst ` set kvs
      then Inl (JsError ''Cannot convert object to primitive value'')
      else Inr ''[object Object]'')"

text \<open>\<open>!v\<close> is true exactly for the falsy values.\<close>

fun falsy :: "jsval \<Rightarrow> bool" where
  "falsy JUndefined = True"
| "falsy JNull = True"
| "falsy (JBool b) = (\<not> b)"
| "falsy (JNum n) = (int_of_safe n = 0)"
| "falsy (JStr s) = (s = [])"
| "falsy (JArr _) = False"
| "falsy (JObj _) = False"

text \<open>
  Reading a member \<open>v.k\<close>, for the names the code reads (\<open>status\<close> and \<open>error\<close>, which
  no primitive value has): \<open>null\<close> and \<open>undefined\<close> raise a \<open>TypeError\<close> (the message
  is the one of V8), a missing member is \<open>undefined\<close>.
\<close>

fun get_member :: "jsval \<Rightarrow> string \<Rightarrow> jsval result" where
  "get_member JUndefined k =
     Inl (JsError (''Cannot read properties of undefined (reading '' @ [CHR 0x27] @ k @ [CHR 0x27] @ '')''))"
| "get_member JNull k =
     Inl (JsError (''Cannot read properties of null (reading '' @ [CHR 0x27] @ k @ [CHR 0x27] @ '')''))"
| "get_member (JObj kvs) k = (case map_of kvs k of None \<Rightarrow> Inr JUndefined | Some v \<Rightarrow> Inr v)"
| "get_member _ k = Inr JUndefined"

text \<open>
  \<open>await provider.request(q)\<close>: the call is recorded when it is made; without a
  callable \<open>request\<close> nothing is sent and a \<open>TypeError\<close> is raised.
\<close>

fun provider_request :: "provider \<Rightarrow> request \<Rightarrow> event list \<Rightarrow> jsval result \<times> event list" where
  "provider_request NullProvider q tr =
     (Inl (JsError ''Cannot read properties of null (reading 'request')''), tr)"
| "provider_request NoRequest q tr =
     (Inl (JsError ''provider.request is not a function''), tr)"
| "provider_request (HasRequest f) q tr = (f (requests tr) q, tr @ [Request q])"

section \<open>paymentService.ts\<close>

subsection \<open>getCallsStatus\<close>

definition status_request :: "jsval \<Rightarrow> request" where
  "status_request batchId = \<lparr>method' = ''wallet_getCallsStatus'', params = [batchId]\<rparr>"

definition getCallsStatus :: "provider \<Rightarrow> jsval \<Rightarrow> event list \<Rightarrow> jsval result \<times> event list" where
  "getCallsStatus provider batchId tr = provider_request provider (status_request batchId) tr"

subsection \<open>waitForBatchConfirmation\<close>

text \<open>
  The \<open>for\<close> loop, from the value of \<open>attempt\<close> it is entered with. \<open>maxAttempts\<close> is an
  attempt count, a natural number; \<open>intervalMs\<close> is handed to \<open>setTimeout\<close> as it is.
\<close>

function wait_loop ::
  "provider \<Rightarrow> jsval \<Rightarrow> nat \<Rightarrow> int \<Rightarrow> nat \<Rightarrow> event list \<Rightarrow> jsval result \<times> event list" where
  "wait_loop provider batchId maxAttempts intervalMs attempt tr =
     (if attempt < maxAttempts then
        (case getCallsStatus provider batchId tr of
           (Inl e, tr1) \<Rightarrow> (Inl e, tr1)
         | (Inr status, tr1) \<Rightarrow>
             (case get_member status ''status'' of
                Inl e \<Rightarrow> (Inl e, tr1)
              | Inr st \<Rightarrow>
                  if st = JStr ''CONFIRMED'' then (Inr status, tr1)
                  else if st = JStr ''FAILED'' then
                    (case get_member status ''error'' of
                       Inl e \<Rightarrow> (Inl e, tr1)
                     | Inr err \<Rightarrow>
                         (case to_string err of
                            Inl e \<Rightarrow> (Inl e, tr1)
                          | Inr s \<Rightarrow> (Inl (JsError (''Batch failed: '' @ s)), tr1)))
                  else wait_loop provider batchId maxAttempts intervalMs (Suc attempt)
                         (tr1 @ [Sleep intervalMs])))
      else (Inl (JsError ''Batch confirmation timeout''), tr))"
  by pat_completeness auto
termination
  by (relation "measure (\<lambda>(provider, batchId, maxAttempts, intervalMs, attempt, tr). maxAttempts - attempt)") auto

declare wait_loop.simps [simp del]

text \<open>
  The two last parameters are optional: \<open>None\<close> is an omitted argument, which takes the
  default of the signature.
\<close>

definition waitForBatchConfirmation ::
  "provider \<Rightarrow> jsval \<Rightarrow> nat option \<Rightarrow> int option \<Rightarrow> event list \<Rightarrow> jsval result \<times> event list" where
  "waitForBatchConfirmation provider batchId maxAttempts intervalMs tr =
     wait_loop provider batchId
       (case maxAttempts of None \<Rightarrow> 60 | Some n \<Rightarrow> n)
       (case intervalMs of None \<Rightarrow> 2000 | Some ms \<Rightarrow> ms) 0 tr"

subsection \<open>sendTransaction\<close>

text \<open>
  \<open>numberToHex\<close> of the viem library writes a number in lower-case hexadecimal after
  \<open>0x\<close>; \<open>baseSepolia.id\<close> is the chain id of Base Sepolia.
\<close>

definition hex_char :: "nat \<Rightarrow> char" where
  "hex_char d = (if d < 10 then char_of (48 + d) else char_of (87 + d))"

fun hex_digits :: "nat \<Rightarrow> string" where
  "hex_digits n = (if n < 16 then [hex_char n] else hex_digits (n div 16) @ [hex_char (n mod 16)])"

declare hex_digits.simps [simp del]

definition numberToHex :: "nat \<Rightarrow> string" where
  "numberToHex n = ''0x'' @ hex_digits n"

definition baseSepolia_id :: nat where
  "baseSepolia_id = 84532"

text \<open>The guard \<open>!provider || !provider.request\<close> is false for these providers only.\<close>

fun has_request :: "provider \<Rightarrow> bool" where
  "has_request (HasRequest _) = True"
| "has_request _ = False"

text \<open>
  \<open>data\<close> is the value of \<open>encodeFunctionData\<close> (of viem) for \<open>claimReward\<close>, computed
  before the \<open>try\<close>. The \<open>catch\<close> logs and throws the same value again.
\<close>

definition sendTransaction ::
  "provider \<Rightarrow> string \<Rightarrow> string \<Rightarrow> string \<Rightarrow> jsval \<Rightarrow> event list \<Rightarrow> jsval result \<times> event list" where
  "sendTransaction provider fromAddress contractAddress paymasterUrl data tr =
     (if \<not> has_request provider then
        (Inl (JsError ''No provider available. Please connect to a base account''), tr)
      else if paymasterUrl = [] then
        (Inl (JsError ''Paymaster URL is required!''), tr)
      else
        (let calls = [JObj [(''to'', JStr contractAddress), (''value'', JStr ''0x0''), (''data'', data)]]
         in provider_request provider
              \<lparr>method' = ''wallet_sendCalls'',
               params = [JObj
                 [(''version'', JStr ''1.0''),
                  (''chainId'', JStr (numberToHex baseSepolia_id)),
                  (''from'', JStr fromAddress),
                  (''calls'', JArr calls),
                  (''capabilities'',
                     JObj [(''paymasterService'', JObj [(''url'', JStr paymasterUrl)])])]]\<rparr>
              tr))"

section \<open>App.tsx\<close>

text \<open>
  What the handlers close over: the connected provider and account of the component's
  state, the paymaster URL of the build environment (a string, or \<open>undefined\<close> when it
  is not configured) and the address of the contract.
\<close>

record app_env =
  env_provider :: provider
  env_account :: "string option"
  env_paymasterUrl :: jsval
  env_contractAddress :: string

record app_state =
  error :: string
  isLoading :: bool
  refreshTrigger :: int

fun provider_falsy :: "provider \<Rightarrow> bool" where
  "provider_falsy NullProvider = True"
| "provider_falsy _ = False"

fun account_falsy :: "string option \<Rightarrow> bool" where
  "account_falsy None = True"
| "account_falsy (Some a) = (a = [])"

text \<open>The value of \<open>account\<close>, a string or \<open>null\<close>.\<close>

fun account_value :: "string option \<Rightarrow> jsval" where
  "account_value None = JNull"
| "account_value (Some a) = JStr a"

text \<open>\<open>err instanceof Error ? err.message : fallback\<close>\<close>

fun message_or :: "thrown \<Rightarrow> string \<Rightarrow> string" where
  "message_or (JsError m) fallback = m"
| "message_or (Thrown _) fallback = fallback"

subsection \<open>handleCreateDonation\<close>

text \<open>The confirmation loop of \<open>handleCreateDonation\<close>; its value is \<open>confirmed\<close>.\<close>

function create_confirm_loop ::
  "provider \<Rightarrow> jsval \<Rightarrow> nat \<Rightarrow> event list \<Rightarrow> bool result \<times> event list" where
  "create_confirm_loop provider batchId i tr =
     (if i < 60 then
        (case provider_request provider
                \<lparr>method' = ''wallet_getCallsStatus'', params = [batchId]\<rparr> tr of
           (Inl e, tr1) \<Rightarrow> (Inl e, tr1)
         | (Inr status, tr1) \<Rightarrow>
             (case get_member status ''status'' of
                Inl e \<Rightarrow> (Inl e, tr1)
              | Inr st \<Rightarrow>
                  if st = JStr ''CONFIRMED'' then (Inr True, tr1)
                  else if st = JStr ''FAILED'' then
                    (case get_member status ''error'' of
                       Inl e \<Rightarrow> (Inl e, tr1)
                     | Inr err \<Rightarrow>
                         (case to_string err of
                            Inl e \<Rightarrow> (Inl e, tr1)
                          | Inr s \<Rightarrow> (Inl (JsError (''Transaction failed: '' @ s)), tr1)))
                  else create_confirm_loop provider batchId (Suc i) (tr1 @ [Sleep 2000])))
      else (Inr False, tr))"
  by pat_completeness auto
termination
  by (relation "measure (\<lambda>(provider, batchId, i, tr). 60 - i)") auto

declare create_confirm_loop.simps [simp del]

text \<open>The loop with the check of \<open>confirmed\<close> that follows it.\<close>

definition create_confirm :: "provider \<Rightarrow> jsval \<Rightarrow> event list \<Rightarrow> unit result \<times> event list" where
  "create_confirm provider batchId tr =
     (case create_confirm_loop provider batchId 0 tr of
        (Inl e, tr1) \<Rightarrow> (Inl e, tr1)
      | (Inr confirmed, tr1) \<Rightarrow>
          if \<not> confirmed then (Inl (JsError ''Transaction confirmation timeout''), tr1)
          else (Inr (), tr1))"

text \<open>
  The body of the \<open>try\<close>. \<open>encode\<close> stands for the computation of \<open>data\<close> from the
  arguments (\<open>parseFloat\<close>, \<open>Math.floor\<close>, \<open>BigInt\<close> and viem's \<open>encodeFunctionData\<close>),
  which yields the encoded call or throws.
\<close>

definition handleCreateDonation_try ::
  "app_env \<Rightarrow> (string \<Rightarrow> string \<Rightarrow> jsval result) \<Rightarrow> string \<Rightarrow> string \<Rightarrow> event list
     \<Rightarrow> unit result \<times> event list" where
  "handleCreateDonation_try env encode amountStr descr tr =
     (case encode amountStr descr of
        Inl e \<Rightarrow> (Inl e, tr)
      | Inr data \<Rightarrow>
          (let calls = [JObj [(''to'', JStr (env_contractAddress env)), (''value'', JStr ''0x0''),
                              (''data'', data)]]
           in case provider_request (env_provider env)
                \<lparr>method' = ''wallet_sendCalls'',
                 params = [JObj
                   [(''version'', JStr ''1.0''),
                    (''chainId'', JStr (numberToHex baseSepolia_id)),
                    (''from'', account_value (env_account env)),
                    (''calls'', JArr calls),
                    (''capabilities'',
                       JObj [(''paymasterService'', JObj [(''url'', env_paymasterUrl env)])])]]\<rparr>
                tr of
              (Inl e, tr1) \<Rightarrow> (Inl e, tr1)
            | (Inr batchId, tr1) \<Rightarrow>
                if falsy batchId then (Inl (JsError ''Failed to get batch ID''), tr1)
                else
                  (case create_confirm (env_provider env) batchId tr1 of
                     (Inl e, tr2) \<Rightarrow> (Inl e, tr2)
                   | (Inr _, tr2) \<Rightarrow> (Inr (), tr2 @ [IncRefreshTrigger]))))"

definition handleCreateDonation ::
  "app_env \<Rightarrow> (string \<Rightarrow> string \<Rightarrow> jsval result) \<Rightarrow> string \<Rightarrow> string \<Rightarrow> event list
     \<Rightarrow> unit result \<times> event list" where
  "handleCreateDonation env encode amountStr descr tr =
     (if provider_falsy (env_provider env) \<or> account_falsy (env_account env) then
        (Inr (), tr @ [SetError ''Wallet not connected''])
      else
        (case handleCreateDonation_try env encode amountStr descr
                (tr @ [SetError [], SetIsLoading True]) of
           (Inr u, tr1) \<Rightarrow> (Inr u, tr1 @ [SetIsLoading False])
         | (Inl err, tr1) \<Rightarrow>
             (Inl err, tr1 @ [SetError (message_or err ''Failed to create donation''),
                              SetIsLoading False])))"

subsection \<open>handleDonate\<close>

function donate_confirm_loop ::
  "provider \<Rightarrow> jsval \<Rightarrow> nat \<Rightarrow> event list \<Rightarrow> bool result \<times> event list" where
  "donate_confirm_loop provider batchId i tr =
     (if i < 60 then
        (case provider_request provider
                \<lparr>method' = ''wallet_getCallsStatus'', params = [batchId]\<rparr> tr of
           (Inl e, tr1) \<Rightarrow> (Inl e, tr1)
         | (Inr status, tr1) \<Rightarrow>
             (case get_member status ''status'' of
                Inl e \<Rightarrow> (Inl e, tr1)
              | Inr st \<Rightarrow>
                  if st = JStr ''CONFIRMED'' then (Inr True, tr1)
                  else if st = JStr ''FAILED'' then
                    (case get_member status ''error'' of
                       Inl e \<Rightarrow> (Inl e, tr1)
                     | Inr err \<Rightarrow>
                         (case to_string err of
                            Inl e \<Rightarrow> (Inl e, tr1)
                          | Inr s \<Rightarrow> (Inl (JsError (''Transaction failed: '' @ s)), tr1)))
                  else donate_confirm_loop provider batchId (Suc i) (tr1 @ [Sleep 2000])))
      else (Inr False, tr))"
  by pat_completeness auto
termination
  by (relation "measure (\<lambda>(provider, batchId, i, tr). 60 - i)") auto

declare donate_confirm_loop.simps [simp del]

definition donate_confirm :: "provider \<Rightarrow> jsval \<Rightarrow> event list \<Rightarrow> unit result \<times> event list" where
  "donate_confirm provider batchId tr =
     (case donate_confirm_loop provider batchId 0 tr of
        (Inl e, tr1) \<Rightarrow> (Inl e, tr1)
      | (Inr confirmed, tr1) \<Rightarrow>
          if \<not> confirmed then (Inl (JsError ''Transaction confirmation timeout''), tr1)
          else (Inr (), tr1))"

definition handleDonate_try ::
  "app_env \<Rightarrow> (int \<Rightarrow> string \<Rightarrow> jsval result) \<Rightarrow> int \<Rightarrow> string \<Rightarrow> event list
     \<Rightarrow> unit result \<times> event list" where
  "handleDonate_try env encode ident amountStr tr =
     (case encode ident amountStr of
        Inl e \<Rightarrow> (Inl e, tr)
      | Inr data \<Rightarrow>
          (let calls = [JObj [(''to'', JStr (env_contractAddress env)), (''value'', JStr ''0x0''),
                              (''data'', data)]]
           in case provider_request (env_provider env)
                \<lparr>method' = ''wallet_sendCalls'',
                 params = [JObj
                   [(''version'', JStr ''1.0''),
                    (''chainId'', JStr (numberToHex baseSepolia_id)),
                    (''from'', account_value (env_account env)),
                    (''calls'', JArr calls),
                    (''capabilities'',
                       JObj [(''paymasterService'', JObj [(''url'', env_paymasterUrl env)])])]]\<rparr>
                tr of
              (Inl e, tr1) \<Rightarrow> (Inl e, tr1)
            | (Inr batchId, tr1) \<Rightarrow>
                if falsy batchId then (Inl (JsError ''Failed to get batch ID''), tr1)
                else
                  (case donate_confirm (env_provider env) batchId tr1 of
                     (Inl e, tr2) \<Rightarrow> (Inl e, tr2)
                   | (Inr _, tr2) \<Rightarrow> (Inr (), tr2 @ [IncRefreshTrigger]))))"

definition handleDonate ::
  "app_env \<Rightarrow> (int \<Rightarrow> string \<Rightarrow> jsval result) \<Rightarrow> int \<Rightarrow> string \<Rightarrow> event list
     \<Rightarrow> unit result \<times> event list" where
  "handleDonate env encode ident amountStr tr =
     (if provider_falsy (env_provider env) \<or> account_falsy (env_account env) then
        (Inr (), tr @ [SetError ''Wallet not connected''])
      else
        (case handleDonate_try env encode ident amountStr
                (tr @ [SetError [], SetIsLoading True]) of
           (Inr u, tr1) \<Rightarrow> (Inr u, tr1 @ [SetIsLoading False])
         | (Inl err, tr1) \<Rightarrow>
             (Inl err, tr1 @ [SetError (message_or err ''Failed to process donation''),
                              SetIsLoading False])))"

subsection \<open>The component's state after a run\<close>

text \<open>
  The state setters take effect in the order they are called; \<open>setRefreshTrigger\<close> is
  called with the updater \<open>prev => prev + 1\<close>.
\<close>

fun app_event :: "app_state \<Rightarrow> event \<Rightarrow> app_state" where
  "app_event s (SetError m) = s\<lparr>error := m\<rparr>"
| "app_event s (SetIsLoading b) = s\<lparr>isLoading := b\<rparr>"
| "app_event s IncRefreshTrigger = s\<lparr>refreshTrigger := refreshTrigger s + 1\<rparr>"
| "app_event s _ = s"

definition app_after :: "app_state \<Rightarrow> event list \<Rightarrow> app_state" where
  "app_after s es = foldl app_event s es"

section \<open>The contract hook \<open>useContract\<close>\<close>

text \<open>
  The public client of viem reads the contract; what it answers is the environment's.
  \<open>readContract\<close> decodes the answer by the contract's interface description: the
  members of a donation are those of \<open>Donation\<close>, and \<open>totalDonations\<close> is an unsigned
  integer, decoded to a \<open>bigint\<close>. Each read resolves or rejects, and may depend on what
  happened before.
\<close>

record contract_client =
  read_getDonation :: "event list \<Rightarrow> int \<Rightarrow> Donation result"
  read_totalDonations :: "event list \<Rightarrow> int result"

text \<open>\<open>BigInt(v)\<close> of an integral value is that integer.\<close>

definition BigInt :: "int \<Rightarrow> int" where
  "BigInt n = n"

fun bit_length :: "nat \<Rightarrow> nat" where
  "bit_length n = (if n = 0 then 0 else Suc (bit_length (n div 2)))"

declare bit_length.simps [simp del]

text \<open>
  \<open>Number(v)\<close> of a \<open>bigint\<close> is the nearest double, ties to the even significand; the
  value is an integer again (below \<open>2^1024\<close> in magnitude, where no infinity arises).
\<close>

definition Number :: "int \<Rightarrow> int" where
  "Number n =
     (let m = nat \<bar>n\<bar>; k = bit_length m in
      if k \<le> 53 then n
      else
        (let s = k - 53; q = m div 2 ^ s; r = m mod 2 ^ s; h = 2 ^ (s - 1);
             q' = (if h < r \<or> (r = h \<and> odd q) then q + 1 else q)
         in sgn n * int (q' * 2 ^ s)))"

definition getDonation ::
  "contract_client \<Rightarrow> int \<Rightarrow> event list \<Rightarrow> Donation result \<times> event list" where
  "getDonation client ident tr =
     (case read_getDonation client tr ident of
        Inl e \<Rightarrow> (Inl e, tr @ [ReadContract ''getDonation'' [ident]])
      | Inr donation \<Rightarrow>
          (Inr \<lparr>targetAmount = BigInt (targetAmount donation),
                totalDonated = BigInt (totalDonated donation),
                creator = creator donation,
                timestamp = BigInt (timestamp donation),
                description = description donation\<rparr>,
           tr @ [ReadContract ''getDonation'' [ident]]))"

definition getTotalDonations :: "contract_client \<Rightarrow> event list \<Rightarrow> int result \<times> event list" where
  "getTotalDonations client tr =
     (case read_totalDonations client tr of
        Inl e \<Rightarrow> (Inl e, tr @ [ReadContract ''totalDonations'' []])
      | Inr res \<Rightarrow> (Inr (Number res), tr @ [ReadContract ''totalDonations'' []]))"

section \<open>The component \<open>DonationList\<close>\<close>

record list_state =
  donations :: "(int \<times> Donation) list"
  isLoadingDonations :: bool
  listError :: string

text \<open>
  The \<open>for\<close> loop of \<open>loadDonations\<close>, from the value of \<open>i\<close> it is entered with; the
  counter is exact (it stays below \<open>2^53\<close>). A read that fails is logged and skipped.
\<close>

function load_loop ::
  "contract_client \<Rightarrow> int \<Rightarrow> nat \<Rightarrow> (int \<times> Donation) list \<Rightarrow> event list
     \<Rightarrow> (int \<times> Donation) list \<times> event list" where
  "load_loop client total' i donationsList tr =
     (if int i < total' then
        (case getDonation client (BigInt (int i)) tr of
           (Inr donation, tr1) \<Rightarrow>
             load_loop client total' (Suc i) (donationsList @ [(BigInt (int i), donation)]) tr1
         | (Inl err, tr1) \<Rightarrow> load_loop client total' (Suc i) donationsList tr1)
      else (donationsList, tr))"
  by pat_completeness auto
termination
  by (relation "measure (\<lambda>(client, total', i, donationsList, tr). nat (total' - int i))") auto

declare load_loop.simps [simp del]

definition loadDonations :: "contract_client \<Rightarrow> event list \<Rightarrow> event list" where
  "loadDonations client tr =
     (case getTotalDonations client (tr @ [SetIsLoadingDonations True, SetListError []]) of
        (Inr total', tr1) \<Rightarrow>
          (case load_loop client total' 0 [] tr1 of
             (donationsList, tr2) \<Rightarrow>
               tr2 @ [SetDonations (rev donationsList), SetIsLoadingDonations False])
      | (Inl err, tr1) \<Rightarrow>
          tr1 @ [SetListError (message_or err ''Failed to load donations''),
                 SetIsLoadingDonations False])"

fun list_event :: "list_state \<Rightarrow> event \<Rightarrow> list_state" where
  "list_event s (SetDonations ds) = s\<lparr>donations := ds\<rparr>"
| "list_event s (SetIsLoadingDonations b) = s\<lparr>isLoadingDonations := b\<rparr>"
| "list_event s (SetListError m) = s\<lparr>listError := m\<rparr>"
| "list_event s _ = s"

definition list_after :: "list_state \<Rightarrow> event list \<Rightarrow> list_state" where
  "list_after s es = foldl list_event s es"

section \<open>The component \<open>DonationCard\<close>\<close>

text \<open>
  The progress value is computed on doubles. A JavaScript number is \<open>NaN\<close>, an infinity
  or a finite value; the finite values of the model are all reals, of which the doubles
  are some. An operation on finite operands takes the rounding \<open>rd\<close> of the exact result
  to a number as a parameter, so what is proved holds for the rounding of IEEE 754 as
  for any other; the cases with a zero, an infinity or \<open>NaN\<close> are those of IEEE 754.
  Zero is the positive zero: \<open>Number(v) / 1e18\<close> of a \<open>bigint\<close> is never the negative one.
\<close>

datatype jsnum = NaN | NegInf | Fin real | PosInf

fun js_div :: "(real \<Rightarrow> jsnum) \<Rightarrow> jsnum \<Rightarrow> jsnum \<Rightarrow> jsnum" where
  "js_div rd NaN y = NaN"
| "js_div rd x NaN = NaN"
| "js_div rd (Fin a) (Fin b) =
     (if b = 0 then (if a = 0 then NaN else if 0 < a then PosInf else NegInf) else rd (a / b))"
| "js_div rd (Fin a) y = Fin 0"
| "js_div rd PosInf (Fin b) = (if 0 \<le> b then PosInf else NegInf)"
| "js_div rd NegInf (Fin b) = (if 0 \<le> b then NegInf else PosInf)"
| "js_div rd x y = NaN"

fun js_mul :: "(real \<Rightarrow> jsnum) \<Rightarrow> jsnum \<Rightarrow> jsnum \<Rightarrow> jsnum" where
  "js_mul rd NaN y = NaN"
| "js_mul rd x NaN = NaN"
| "js_mul rd (Fin a) (Fin b) = rd (a * b)"
| "js_mul rd (Fin a) PosInf = (if a = 0 then NaN else if 0 < a then PosInf else NegInf)"
| "js_mul rd (Fin a) NegInf = (if a = 0 then NaN else if 0 < a then NegInf else PosInf)"
| "js_mul rd PosInf (Fin b) = (if b = 0 then NaN else if 0 < b then PosInf else NegInf)"
| "js_mul rd NegInf (Fin b) = (if b = 0 then NaN else if 0 < b then NegInf else PosInf)"
| "js_mul rd PosInf PosInf = PosInf"
| "js_mul rd NegInf NegInf = PosInf"
| "js_mul rd x y = NegInf"

text \<open>\<open>Math.min\<close> of two numbers.\<close>

fun js_min :: "jsnum \<Rightarrow> jsnum \<Rightarrow> jsnum" where
  "js_min NaN y = NaN"
| "js_min x NaN = NaN"
| "js_min NegInf y = NegInf"
| "js_min x NegInf = NegInf"
| "js_min PosInf y = y"
| "js_min x PosInf = x"
| "js_min (Fin a) (Fin b) = Fin (min a b)"

text \<open>\<open>x < y\<close> on numbers: false when either is \<open>NaN\<close>.\<close>

fun js_less :: "jsnum \<Rightarrow> jsnum \<Rightarrow> bool" where
  "js_less NaN y = False"
| "js_less x NaN = False"
| "js_less (Fin a) (Fin b) = (a < b)"
| "js_less NegInf NegInf = False"
| "js_less NegInf y = True"
| "js_less x NegInf = False"
| "js_less PosInf y = False"
| "js_less x PosInf = True"

text \<open>The three constants of the component, in the order of the source.\<close>

definition card_targetAmount :: "(real \<Rightarrow> jsnum) \<Rightarrow> Donation \<Rightarrow> jsnum" where
  "card_targetAmount rd donation =
     js_div rd (Fin (real_of_int (Number (targetAmount donation)))) (Fin 1000000000000000000)"

definition card_totalDonated :: "(real \<Rightarrow> jsnum) \<Rightarrow> Donation \<Rightarrow> jsnum" where
  "card_totalDonated rd donation =
     js_div rd (Fin (real_of_int (Number (totalDonated donation)))) (Fin 1000000000000000000)"

definition progress_of :: "(real \<Rightarrow> jsnum) \<Rightarrow> jsnum \<Rightarrow> jsnum \<Rightarrow> jsnum" where
  "progress_of rd totalDonated' targetAmount' =
     js_min (js_mul rd (js_div rd totalDonated' targetAmount') (Fin 100)) (Fin 100)"

definition card_progress :: "(real \<Rightarrow> jsnum) \<Rightarrow> Donation \<Rightarrow> jsnum" where
  "card_progress rd donation =
     progress_of rd (card_totalDonated rd donation) (card_targetAmount rd donation)"

section \<open>Vocabulary of the properties\<close>

text \<open>
  The events of \<open>n\<close> polls of a batch that were each followed by a wait: the pattern every
  confirmation loop follows.
\<close>

definition poll_pattern :: "request \<Rightarrow> int \<Rightarrow> nat \<Rightarrow> event list" where
  "poll_pattern q ms n = concat (replicate n [Request q, Sleep ms])"

text \<open>
  The answer to the poll number \<open>j\<close> (from 0) of a loop entered with the trace \<open>tr\<close>,
  that is, the answer once \<open>j\<close> polls of the batch were made after \<open>tr\<close>; and the status
  that an answer reports, if it reports one.
\<close>

definition poll_reply :: "provider \<Rightarrow> jsval \<Rightarrow> event list \<Rightarrow> nat \<Rightarrow> jsval result" where
  "poll_reply provider batchId tr j =
     fst (provider_request provider (status_request batchId)
            (tr @ map Request (replicate j (status_request batchId))))"

definition reported_status :: "jsval result \<Rightarrow> jsval option" where
  "reported_status r =
     (case r of
        Inl _ \<Rightarrow> None
      | Inr st \<Rightarrow> (case get_member st ''status'' of Inl _ \<Rightarrow> None | Inr v \<Rightarrow> Some v))"

definition undecided :: "jsval result \<Rightarrow> bool" where
  "undecided r =
     (case reported_status r of
        None \<Rightarrow> False
      | Some v \<Rightarrow> v \<noteq> JStr ''CONFIRMED'' \<and> v \<noteq> JStr ''FAILED'')"

text \<open>
  A provider for examples: it answers the request number \<open>n\<close> with the \<open>n\<close>-th entry of a
  script, and with a fixed answer once the script is used up.
\<close>

definition scripted :: "jsval result list \<Rightarrow> jsval result \<Rightarrow> request list \<Rightarrow> request \<Rightarrow> jsval result" where
  "scripted script rest history q =
     (if length history < length script then script ! length history else rest)"

definition pending_status :: jsval where
  "pending_status = JObj [(''status'', JStr ''PENDING'')]"

definition confirmed_status :: jsval where
  "confirmed_status = JObj [(''status'', JStr ''CONFIRMED''), (''receipts'', JArr [])]"

definition failed_status :: jsval where
  "failed_status = JObj [(''status'', JStr ''FAILED''), (''error'', JStr ''out of gas'')]"

text \<open>
  A failed status whose reported error cannot be converted to a string.
\<close>

definition unprintable_failed_status :: jsval where
  "unprintable_failed_status =
     JObj [(''status'', JStr ''FAILED''), (''error'', JObj [(''toString'', JNull)])]"

text \<open>
  The request every submission is expected to make: one call, to the contract, of
  value \<open>0x0\<close>, on Base Sepolia, with the paymaster service as a capability.
\<close>

definition sendCalls_request :: "jsval \<Rightarrow> jsval \<Rightarrow> jsval \<Rightarrow> jsval \<Rightarrow> request" where
  "sendCalls_request sender target data url =
     \<lparr>method' = ''wallet_sendCalls'',
      params = [JObj
        [(''version'', JStr ''1.0''),
         (''chainId'', JStr ''0x14a34''),
         (''from'', sender),
         (''calls'', JArr [JObj [(''to'', target), (''value'', JStr ''0x0''), (''data'', data)]]),
         (''capabilities'', JObj [(''paymasterService'', JObj [(''url'', url)])])]]\<rparr>"

text \<open>A member of a value, \<open>undefined\<close> where it cannot be read.\<close>

definition member :: "jsval \<Rightarrow> string \<Rightarrow> jsval" where
  "member v k = (case get_member v k of Inl _ \<Rightarrow> JUndefined | Inr x \<Rightarrow> x)"

definition sponsored :: "jsval \<Rightarrow> jsval \<Rightarrow> request \<Rightarrow> bool" where
  "sponsored url target r =
     (method' r = ''wallet_sendCalls'' \<and>
      (case params r of
         [p] \<Rightarrow>
           member (member (member p ''capabilities'') ''paymasterService'') ''url'' = url \<and>
           member p ''version'' = JStr ''1.0'' \<and>
           member p ''chainId'' = JStr ''0x14a34'' \<and>
           (case member p ''calls'' of
              JArr [c] \<Rightarrow> member c ''to'' = target \<and> member c ''value'' = JStr ''0x0''
            | _ \<Rightarrow> False)
       | _ \<Rightarrow> False))"

text \<open>
  The polling loop as the specification describes it, a fixed interval and a hard cap
  on the attempts, with the way it ends kept apart from the value or error that a copy
  of the loop makes of it.
\<close>

datatype poll_outcome = Confirmed jsval | Failed jsval | TimedOut | Raised thrown

function polling_outcome ::
  "provider \<Rightarrow> jsval \<Rightarrow> nat \<Rightarrow> int \<Rightarrow> nat \<Rightarrow> event list \<Rightarrow> poll_outcome \<times> event list" where
  "polling_outcome provider batchId cap interval n tr =
     (if n < cap then
        (case provider_request provider (status_request batchId) tr of
           (Inl e, tr1) \<Rightarrow> (Raised e, tr1)
         | (Inr status, tr1) \<Rightarrow>
             (case get_member status ''status'' of
                Inl e \<Rightarrow> (Raised e, tr1)
              | Inr st \<Rightarrow>
                  if st = JStr ''CONFIRMED'' then (Confirmed status, tr1)
                  else if st = JStr ''FAILED'' then
                    (case get_member status ''error'' of
                       Inl e \<Rightarrow> (Raised e, tr1)
                     | Inr err \<Rightarrow> (Failed err, tr1))
                  else polling_outcome provider batchId cap interval (Suc n) (tr1 @ [Sleep interval])))
      else (TimedOut, tr))"
  by pat_completeness auto
termination
  by (relation "measure (\<lambda>(provider, batchId, cap, interval, n, tr). cap - n)") auto

declare polling_outcome.simps [simp del]

text \<open>The value that an outcome throws, if it throws.\<close>

fun thrown_by :: "'a result \<Rightarrow> thrown option" where
  "thrown_by (Inl e) = Some e"
| "thrown_by (Inr _) = None"

fun helper_result :: "poll_outcome \<Rightarrow> jsval result" where
  "helper_result (Confirmed status) = Inr status"
| "helper_result (Failed err) =
     (case to_string err of Inl e \<Rightarrow> Inl e | Inr s \<Rightarrow> Inl (JsError (''Batch failed: '' @ s)))"
| "helper_result TimedOut = Inl (JsError ''Batch confirmation timeout'')"
| "helper_result (Raised e) = Inl e"

fun inline_result :: "poll_outcome \<Rightarrow> unit result" where
  "inline_result (Confirmed status) = Inr ()"
| "inline_result (Failed err) =
     (case to_string err of
        Inl e \<Rightarrow> Inl e
      | Inr s \<Rightarrow> Inl (JsError (''Transaction failed: '' @ s)))"
| "inline_result TimedOut = Inl (JsError ''Transaction confirmation timeout'')"
| "inline_result (Raised e) = Inl e"

text \<open>
  What the body of a handler's \<open>try\<close> has to do once the call data is there: the
  submission, the check of the batch id, the polling loop and the refresh.
\<close>

definition submit_and_confirm :: "app_env \<Rightarrow> jsval \<Rightarrow> event list \<Rightarrow> unit result \<times> event list" where
  "submit_and_confirm env data tr =
     (case provider_request (env_provider env)
             (sendCalls_request (account_value (env_account env))
                (JStr (env_contractAddress env)) data (env_paymasterUrl env)) tr of
        (Inl e, tr1) \<Rightarrow> (Inl e, tr1)
      | (Inr batchId, tr1) \<Rightarrow>
          if falsy batchId then (Inl (JsError ''Failed to get batch ID''), tr1)
          else
            (case polling_outcome (env_provider env) batchId 60 2000 0 tr1 of
               (out, tr2) \<Rightarrow>
                 (inline_result out,
                  tr2 @ (case out of Confirmed _ \<Rightarrow> [IncRefreshTrigger] | _ \<Rightarrow> []))))"

text \<open>
  What both handlers have to do around that body, given the result \<open>enc\<close> of computing
  the call data and the message to show for a thrown value that is no \<open>Error\<close>.
\<close>

definition run_handler ::
  "app_env \<Rightarrow> jsval result \<Rightarrow> string \<Rightarrow> event list \<Rightarrow> unit result \<times> event list" where
  "run_handler env enc fallback tr =
     (if provider_falsy (env_provider env) \<or> account_falsy (env_account env) then
        (Inr (), tr @ [SetError ''Wallet not connected''])
      else
        (case (case enc of
                 Inl e \<Rightarrow> (Inl e, tr @ [SetError [], SetIsLoading True])
               | Inr data \<Rightarrow> submit_and_confirm env data (tr @ [SetError [], SetIsLoading True])) of
           (Inr u, tr1) \<Rightarrow> (Inr u, tr1 @ [SetIsLoading False])
         | (Inl err, tr1) \<Rightarrow>
             (Inl err, tr1 @ [SetError (message_or err fallback), SetIsLoading False])))"

text \<open>The events that a run added to the trace \<open>tr\<close> it started with.\<close>

definition added :: "event list \<Rightarrow> event list \<Rightarrow> event list" where
  "added tr tr' = drop (length tr) tr'"

text \<open>
  An application for examples: a connected wallet that accepts the submission with the
  batch id \<open>0xb1\<close> and then answers the polls by a script, and call data that encodes.
\<close>

definition demo_env :: "jsval result list \<Rightarrow> app_env" where
  "demo_env polls =
     \<lparr>env_provider = HasRequest (scripted (Inr (JStr ''0xb1'') # polls) (Inr pending_status)),
      env_account = Some ''0xA11ce'',
      env_paymasterUrl = JStr ''https://paymaster.example/rpc'',
      env_contractAddress = ''0xC0ffee''\<rparr>"

definition demo_state :: app_state where
  "demo_state = \<lparr>error = ''old'', isLoading = False, refreshTrigger = 7\<rparr>"

text \<open>
  The reads of the donations \<open>i\<close> up to \<open>j - 1\<close> in ascending order, and the entries that
  a loop entered with the trace \<open>tr\<close> at \<open>i\<close> gets from them: one for every read that
  succeeds, none for a read that fails.
\<close>

definition read_events :: "nat \<Rightarrow> nat \<Rightarrow> event list" where
  "read_events i j = map (\<lambda>k. ReadContract ''getDonation'' [int k]) [i..<j]"

definition loaded :: "contract_client \<Rightarrow> event list \<Rightarrow> nat \<Rightarrow> nat \<Rightarrow> (int \<times> Donation) list" where
  "loaded client tr i j =
     concat (map (\<lambda>k. case read_getDonation client (tr @ read_events i k) (int k) of
                         Inr d \<Rightarrow> [(int k, d)]
                       | Inl _ \<Rightarrow> [])
                 [i..<j])"

text \<open>
  A contract for examples: three donations, of which the one with id 1 cannot be read.
\<close>

definition demo_donation :: "int \<Rightarrow> Donation" where
  "demo_donation ident =
     \<lparr>targetAmount = 1000000000000000000, totalDonated = 250000000000000000 * ident,
      creator = ''0xA11ce'', timestamp = 1700000000 + ident, description = ''school''\<rparr>"

definition demo_client :: contract_client where
  "demo_client =
     \<lparr>read_getDonation =
        (\<lambda>tr ident. if ident = 1 then Inl (JsError ''execution reverted'')
                     else Inr (demo_donation ident)),
      read_totalDonations = (\<lambda>tr. Inr 3)\<rparr>"

definition demo_list_state :: list_state where
  "demo_list_state = \<lparr>donations = [], isLoadingDonations = True, listError = ''old''\<rparr>"

section \<open>Traces\<close>

lemma requests_append: "requests (xs @ ys) = requests xs @ requests ys"
  by (induction xs rule: requests.induct) simp_all

lemma requests_replicate: "requests (replicate n (Request q)) = replicate n q"
  by (induction n) simp_all

lemma requests_poll_pattern: "requests (poll_pattern q ms n) = replicate n q"
  by (induction n) (simp_all add: poll_pattern_def)

lemma poll_pattern_Suc: "poll_pattern q ms (Suc n) = [Request q, Sleep ms] @ poll_pattern q ms n"
  by (simp add: poll_pattern_def)

lemma prefix_poll_pattern_Suc:
  "prefix new (poll_pattern q ms n) \<Longrightarrow>
   prefix ([Request q, Sleep ms] @ new) (poll_pattern q ms (Suc n))"
  by (simp add: poll_pattern_Suc)

lemma set_poll_pattern: "set (poll_pattern q ms n) \<subseteq> {Request q, Sleep ms}"
  by (induction n) (auto simp: poll_pattern_def)

lemma prefix_requests: "prefix xs ys \<Longrightarrow> prefix (requests xs) (requests ys)"
  by (auto simp: prefix_def requests_append)

lemma prefix_poll_pattern_requests:
  assumes "prefix new (poll_pattern q ms n)"
  shows "length (requests new) \<le> n" and "set (requests new) \<subseteq> {q}"
proof -
  have p: "prefix (requests new) (replicate n q)"
    using prefix_requests[OF assms] by (simp add: requests_poll_pattern)
  from prefix_length_le[OF p] show "length (requests new) \<le> n" by simp
  from set_mono_prefix[OF p] show "set (requests new) \<subseteq> {q}" by auto
qed

section \<open>waitForBatchConfirmation\<close>

lemma wait_loop_exhausted:
  "\<not> attempt < maxAttempts \<Longrightarrow>
   wait_loop provider batchId maxAttempts intervalMs attempt tr =
     (Inl (JsError ''Batch confirmation timeout''), tr)"
  by (subst wait_loop.simps) simp

lemma provider_request_reply:
  "requests tr = requests tr' \<Longrightarrow>
   fst (provider_request provider q tr) = fst (provider_request provider q tr')"
  by (cases provider) simp_all

lemma provider_request_resolved:
  "fst (provider_request provider q tr) = Inr v \<Longrightarrow>
   snd (provider_request provider q tr) = tr @ [Request q]"
  by (cases provider) simp_all

lemma poll_reply_0: "poll_reply provider batchId tr 0 = fst (getCallsStatus provider batchId tr)"
  by (simp add: poll_reply_def getCallsStatus_def)

lemma poll_reply_Suc:
  "poll_reply provider batchId tr (Suc j) =
   poll_reply provider batchId (tr @ [Request (status_request batchId), Sleep ms]) j"
  unfolding poll_reply_def
  by (rule provider_request_reply) (simp add: requests_append requests_replicate)

lemma poll_reply_poll_pattern:
  "poll_reply provider batchId tr k =
   fst (getCallsStatus provider batchId (tr @ poll_pattern (status_request batchId) ms k))"
  unfolding poll_reply_def getCallsStatus_def
  by (rule provider_request_reply)
     (simp add: requests_append requests_poll_pattern requests_replicate)

lemma undecided_resolved: "undecided r \<Longrightarrow> \<exists>st. r = Inr st"
  by (cases r) (simp_all add: undecided_def reported_status_def)

lemma wait_loop_undecided_step:
  assumes "attempt < maxAttempts"
    and "undecided (fst (getCallsStatus provider batchId tr))"
  shows "wait_loop provider batchId maxAttempts intervalMs attempt tr =
         wait_loop provider batchId maxAttempts intervalMs (Suc attempt)
           (tr @ [Request (status_request batchId), Sleep intervalMs])"
proof -
  obtain st where st: "fst (getCallsStatus provider batchId tr) = Inr st"
    using undecided_resolved[OF assms(2)] by blast
  then have "snd (getCallsStatus provider batchId tr) = tr @ [Request (status_request batchId)]"
    unfolding getCallsStatus_def by (rule provider_request_resolved)
  with st have g: "getCallsStatus provider batchId tr = (Inr st, tr @ [Request (status_request batchId)])"
    by (simp add: prod_eq_iff)
  show ?thesis
    using assms st
    by (subst wait_loop.simps)
       (auto simp: g undecided_def reported_status_def split: sum.splits option.splits)
qed

lemma wait_loop_confirmed:
  assumes "attempt < maxAttempts"
    and "fst (getCallsStatus provider batchId tr) = Inr st"
    and "get_member st ''status'' = Inr (JStr ''CONFIRMED'')"
  shows "wait_loop provider batchId maxAttempts intervalMs attempt tr =
         (Inr st, tr @ [Request (status_request batchId)])"
proof -
  have "snd (getCallsStatus provider batchId tr) = tr @ [Request (status_request batchId)]"
    using assms(2) unfolding getCallsStatus_def by (rule provider_request_resolved)
  with assms(2) have g: "getCallsStatus provider batchId tr = (Inr st, tr @ [Request (status_request batchId)])"
    by (simp add: prod_eq_iff)
  show ?thesis
    using assms(1,3) by (subst wait_loop.simps) (simp add: g)
qed

lemma wait_loop_failed:
  assumes "attempt < maxAttempts"
    and "fst (getCallsStatus provider batchId tr) = Inr st"
    and "get_member st ''status'' = Inr (JStr ''FAILED'')"
    and "get_member st ''error'' = Inr err"
  shows "wait_loop provider batchId maxAttempts intervalMs attempt tr =
         (case to_string err of
            Inl e \<Rightarrow> Inl e
          | Inr s \<Rightarrow> Inl (JsError (''Batch failed: '' @ s)),
          tr @ [Request (status_request batchId)])"
proof -
  have "snd (getCallsStatus provider batchId tr) = tr @ [Request (status_request batchId)]"
    using assms(2) unfolding getCallsStatus_def by (rule provider_request_resolved)
  with assms(2) have g: "getCallsStatus provider batchId tr = (Inr st, tr @ [Request (status_request batchId)])"
    by (simp add: prod_eq_iff)
  show ?thesis
    using assms(1,3,4) by (subst wait_loop.simps) (simp add: g split: sum.splits)
qed

lemma wait_loop_skip:
  assumes "\<forall>j<k. undecided (poll_reply provider batchId tr j)"
    and "attempt + k \<le> maxAttempts"
  shows "wait_loop provider batchId maxAttempts intervalMs attempt tr =
         wait_loop provider batchId maxAttempts intervalMs (attempt + k)
           (tr @ poll_pattern (status_request batchId) intervalMs k)"
  using assms
proof (induction k arbitrary: attempt tr)
  case 0
  then show ?case by (simp add: poll_pattern_def)
next
  case (Suc k)
  let ?q = "status_request batchId"
  let ?tr = "tr @ [Request ?q, Sleep intervalMs]"
  have "undecided (poll_reply provider batchId tr 0)"
    using Suc.prems(1) by blast
  then have u0: "undecided (fst (getCallsStatus provider batchId tr))"
    by (simp add: poll_reply_0)
  have step: "wait_loop provider batchId maxAttempts intervalMs attempt tr =
      wait_loop provider batchId maxAttempts intervalMs (Suc attempt) ?tr"
    using Suc.prems(2) u0 by (intro wait_loop_undecided_step) simp_all
  have rest: "\<forall>j<k. undecided (poll_reply provider batchId ?tr j)"
  proof (intro allI impI)
    fix j assume "j < k"
    then have "Suc j < Suc k" by simp
    then have "undecided (poll_reply provider batchId tr (Suc j))"
      using Suc.prems(1) by blast
    then show "undecided (poll_reply provider batchId ?tr j)"
      by (simp only: poll_reply_Suc[of provider batchId tr j intervalMs])
  qed
  have "wait_loop provider batchId maxAttempts intervalMs (Suc attempt) ?tr =
        wait_loop provider batchId maxAttempts intervalMs (Suc attempt + k)
          (?tr @ poll_pattern ?q intervalMs k)"
    using Suc.prems(2) by (intro Suc.IH rest) simp
  with step show ?case by (simp add: poll_pattern_Suc)
qed

lemma wait_loop_trace:
  "\<exists>new. snd (wait_loop provider batchId maxAttempts intervalMs attempt tr) = tr @ new \<and>
     prefix new (poll_pattern (status_request batchId) intervalMs (maxAttempts - attempt))"
proof (induction "maxAttempts - attempt" arbitrary: attempt tr)
  case 0
  then have "\<not> attempt < maxAttempts" by simp
  then show ?case by (simp add: wait_loop_exhausted)
next
  case (Suc n)
  let ?q = "status_request batchId"
  from Suc.hyps(2) have lt: "attempt < maxAttempts" and n: "n = maxAttempts - Suc attempt"
    and m: "maxAttempts - attempt = Suc n" by simp_all
  have one: "prefix [Request ?q] (poll_pattern ?q intervalMs (maxAttempts - attempt))"
    by (simp add: m poll_pattern_Suc)
  show ?case
  proof (cases provider)
    case NullProvider
    then show ?thesis using lt by (subst wait_loop.simps) (simp add: getCallsStatus_def)
  next
    case NoRequest
    then show ?thesis using lt by (subst wait_loop.simps) (simp add: getCallsStatus_def)
  next
    case (HasRequest f)
    obtain new where new: "snd (wait_loop provider batchId maxAttempts intervalMs (Suc attempt)
          (tr @ [Request ?q, Sleep intervalMs])) = (tr @ [Request ?q, Sleep intervalMs]) @ new"
      and pre: "prefix new (poll_pattern ?q intervalMs (maxAttempts - Suc attempt))"
      using Suc.hyps(1)[OF n] by blast
    have two: "prefix ([Request ?q, Sleep intervalMs] @ new) (poll_pattern ?q intervalMs (maxAttempts - attempt))"
      using pre n m prefix_poll_pattern_Suc by metis
    show ?thesis
      using lt HasRequest one two new
      by (subst wait_loop.simps)
         (auto simp: getCallsStatus_def split: sum.splits)
  qed
qed

text \<open>
  C1, as the code has it. For every provider and batch id: when the poll number \<open>k\<close>
  (below \<open>maxAttempts\<close>) is the first that does not report a status other than
  CONFIRMED and FAILED, and it reports CONFIRMED, \<open>waitForBatchConfirmation\<close> returns
  that status object right after this poll. When it reports FAILED, the function throws
  right after this poll: the error \<open>Batch failed:\<close> followed by the reported error as a
  string when the reported error converts to a string, and the \<open>TypeError\<close> of the
  conversion when it does not. When \<open>maxAttempts\<close> polls each report another status
  (PENDING, say), every one of them is followed by a wait and a further poll until the
  error \<open>Batch confirmation timeout\<close> is thrown.
\<close>

theorem waitForBatchConfirmation_outcomes:
  "(k < maxAttempts \<and> (\<forall>j<k. undecided (poll_reply provider batchId tr j)) \<and>
      poll_reply provider batchId tr k = Inr st \<and>
      get_member st ''status'' = Inr (JStr ''CONFIRMED'')
    \<longrightarrow> waitForBatchConfirmation provider batchId (Some maxAttempts) (Some intervalMs) tr =
          (Inr st,
           tr @ poll_pattern (status_request batchId) intervalMs k @ [Request (status_request batchId)]))
   \<and>
   (k < maxAttempts \<and> (\<forall>j<k. undecided (poll_reply provider batchId tr j)) \<and>
      poll_reply provider batchId tr k = Inr st \<and>
      get_member st ''status'' = Inr (JStr ''FAILED'') \<and>
      get_member st ''error'' = Inr err \<and> to_string err = Inr s
    \<longrightarrow> waitForBatchConfirmation provider batchId (Some maxAttempts) (Some intervalMs) tr =
          (Inl (JsError (''Batch failed: '' @ s)),
           tr @ poll_pattern (status_request batchId) intervalMs k @ [Request (status_request batchId)]))
   \<and>
   (k < maxAttempts \<and> (\<forall>j<k. undecided (poll_reply provider batchId tr j)) \<and>
      poll_reply provider batchId tr k = Inr st \<and>
      get_member st ''status'' = Inr (JStr ''FAILED'') \<and>
      get_member st ''error'' = Inr err \<and> to_string err = Inl e
    \<longrightarrow> waitForBatchConfirmation provider batchId (Some maxAttempts) (Some intervalMs) tr =
          (Inl e,
           tr @ poll_pattern (status_request batchId) intervalMs k @ [Request (status_request batchId)]))
   \<and>
   ((\<forall>j<maxAttempts. undecided (poll_reply provider batchId tr j))
    \<longrightarrow> waitForBatchConfirmation provider batchId (Some maxAttempts) (Some intervalMs) tr =
          (Inl (JsError ''Batch confirmation timeout''),
           tr @ poll_pattern (status_request batchId) intervalMs maxAttempts))"
proof (intro conjI impI)
  let ?q = "status_request batchId"
  {
    assume h: "k < maxAttempts \<and> (\<forall>j<k. undecided (poll_reply provider batchId tr j)) \<and>
      poll_reply provider batchId tr k = Inr st \<and>
      get_member st ''status'' = Inr (JStr ''CONFIRMED'')"
    have skip: "wait_loop provider batchId maxAttempts intervalMs 0 tr =
        wait_loop provider batchId maxAttempts intervalMs (0 + k) (tr @ poll_pattern ?q intervalMs k)"
      using h by (intro wait_loop_skip) simp_all
    have "fst (getCallsStatus provider batchId (tr @ poll_pattern ?q intervalMs k)) = Inr st"
      using h by (simp only: poll_reply_poll_pattern[of provider batchId tr k intervalMs])
    then have "wait_loop provider batchId maxAttempts intervalMs k (tr @ poll_pattern ?q intervalMs k) =
        (Inr st, (tr @ poll_pattern ?q intervalMs k) @ [Request ?q])"
      using h by (intro wait_loop_confirmed) auto
    with skip show "waitForBatchConfirmation provider batchId (Some maxAttempts) (Some intervalMs) tr =
          (Inr st, tr @ poll_pattern ?q intervalMs k @ [Request ?q])"
      by (simp add: waitForBatchConfirmation_def)
  }
  have failed: "waitForBatchConfirmation provider batchId (Some maxAttempts) (Some intervalMs) tr =
          (case to_string err of
             Inl e \<Rightarrow> Inl e
           | Inr s \<Rightarrow> Inl (JsError (''Batch failed: '' @ s)),
           tr @ poll_pattern ?q intervalMs k @ [Request ?q])"
    if h: "k < maxAttempts \<and> (\<forall>j<k. undecided (poll_reply provider batchId tr j)) \<and>
      poll_reply provider batchId tr k = Inr st \<and>
      get_member st ''status'' = Inr (JStr ''FAILED'') \<and>
      get_member st ''error'' = Inr err"
  proof -
    have skip: "wait_loop provider batchId maxAttempts intervalMs 0 tr =
        wait_loop provider batchId maxAttempts intervalMs (0 + k) (tr @ poll_pattern ?q intervalMs k)"
      using h by (intro wait_loop_skip) simp_all
    have "fst (getCallsStatus provider batchId (tr @ poll_pattern ?q intervalMs k)) = Inr st"
      using h by (simp only: poll_reply_poll_pattern[of provider batchId tr k intervalMs])
    then have "wait_loop provider batchId maxAttempts intervalMs k (tr @ poll_pattern ?q intervalMs k) =
        (case to_string err of
           Inl e \<Rightarrow> Inl e
         | Inr s \<Rightarrow> Inl (JsError (''Batch failed: '' @ s)),
         (tr @ poll_pattern ?q intervalMs k) @ [Request ?q])"
      using h by (intro wait_loop_failed) auto
    with skip show ?thesis
      by (simp add: waitForBatchConfirmation_def)
  qed
  {
    assume h: "k < maxAttempts \<and> (\<forall>j<k. undecided (poll_reply provider batchId tr j)) \<and>
      poll_reply provider batchId tr k = Inr st \<and>
      get_member st ''status'' = Inr (JStr ''FAILED'') \<and>
      get_member st ''error'' = Inr err \<and> to_string err = Inr s"
    then show "waitForBatchConfirmation provider batchId (Some maxAttempts) (Some intervalMs) tr =
          (Inl (JsError (''Batch failed: '' @ s)),
           tr @ poll_pattern ?q intervalMs k @ [Request ?q])"
      using failed by simp
  }
  {
    assume h: "k < maxAttempts \<and> (\<forall>j<k. undecided (poll_reply provider batchId tr j)) \<and>
      poll_reply provider batchId tr k = Inr st \<and>
      get_member st ''status'' = Inr (JStr ''FAILED'') \<and>
      get_member st ''error'' = Inr err \<and> to_string err = Inl e"
    then show "waitForBatchConfirmation provider batchId (Some maxAttempts) (Some intervalMs) tr =
          (Inl e, tr @ poll_pattern ?q intervalMs k @ [Request ?q])"
      using failed by simp
  }
  {
    assume h: "\<forall>j<maxAttempts. undecided (poll_reply provider batchId tr j)"
    have skip: "wait_loop provider batchId maxAttempts intervalMs 0 tr =
        wait_loop provider batchId maxAttempts intervalMs (0 + maxAttempts)
          (tr @ poll_pattern ?q intervalMs maxAttempts)"
      using h by (intro wait_loop_skip) simp_all
    then show "waitForBatchConfirmation provider batchId (Some maxAttempts) (Some intervalMs) tr =
          (Inl (JsError ''Batch confirmation timeout''), tr @ poll_pattern ?q intervalMs maxAttempts)"
      by (simp add: waitForBatchConfirmation_def wait_loop_exhausted)
  }
qed

lemma scripted_simps:
  "scripted [] rest h q = rest"
  "scripted (x # xs) rest [] q = x"
  "scripted (x # xs) rest (r # h) q = scripted xs rest h q"
  by (simp_all add: scripted_def)

theorem waitForBatchConfirmation_outcomes_witness:
  "waitForBatchConfirmation
     (HasRequest (scripted [Inr pending_status, Inr pending_status, Inr confirmed_status] (Inr pending_status)))
     (JStr ''0xb1'') (Some 60) (Some 2000) [] =
     (Inr confirmed_status,
      [Request (status_request (JStr ''0xb1'')), Sleep 2000,
       Request (status_request (JStr ''0xb1'')), Sleep 2000,
       Request (status_request (JStr ''0xb1''))])
   \<and>
   waitForBatchConfirmation
     (HasRequest (scripted [Inr pending_status, Inr failed_status] (Inr pending_status)))
     (JStr ''0xb1'') (Some 60) (Some 2000) [] =
     (Inl (JsError ''Batch failed: out of gas''),
      [Request (status_request (JStr ''0xb1'')), Sleep 2000,
       Request (status_request (JStr ''0xb1''))])
   \<and>
   waitForBatchConfirmation
     (HasRequest (scripted [Inr pending_status, Inr unprintable_failed_status] (Inr pending_status)))
     (JStr ''0xb1'') (Some 60) (Some 2000) [] =
     (Inl (JsError ''Cannot convert object to primitive value''),
      [Request (status_request (JStr ''0xb1'')), Sleep 2000,
       Request (status_request (JStr ''0xb1''))])
   \<and>
   waitForBatchConfirmation
     (HasRequest (scripted [] (Inr pending_status)))
     (JStr ''0xb1'') (Some 2) (Some 2000) [] =
     (Inl (JsError ''Batch confirmation timeout''),
      [Request (status_request (JStr ''0xb1'')), Sleep 2000,
       Request (status_request (JStr ''0xb1'')), Sleep 2000])"
proof -
  note defs = poll_reply_def scripted_simps undecided_def reported_status_def
    pending_status_def confirmed_status_def failed_status_def unprintable_failed_status_def
    poll_pattern_def numeral_2_eq_2 All_less_Suc requests_replicate
  have "waitForBatchConfirmation
     (HasRequest (scripted [Inr pending_status, Inr pending_status, Inr confirmed_status] (Inr pending_status)))
     (JStr ''0xb1'') (Some 60) (Some 2000) [] =
     (Inr confirmed_status,
      [Request (status_request (JStr ''0xb1'')), Sleep 2000,
       Request (status_request (JStr ''0xb1'')), Sleep 2000,
       Request (status_request (JStr ''0xb1''))])"
    using waitForBatchConfirmation_outcomes
        [where k = 2 and maxAttempts = 60 and batchId = "JStr ''0xb1''" and tr = "[]"
           and provider = "HasRequest (scripted [Inr pending_status, Inr pending_status,
                 Inr confirmed_status] (Inr pending_status))"
           and st = confirmed_status and intervalMs = 2000,
         THEN conjunct1]
    by (simp add: defs)
  moreover have "waitForBatchConfirmation
     (HasRequest (scripted [Inr pending_status, Inr failed_status] (Inr pending_status)))
     (JStr ''0xb1'') (Some 60) (Some 2000) [] =
     (Inl (JsError ''Batch failed: out of gas''),
      [Request (status_request (JStr ''0xb1'')), Sleep 2000,
       Request (status_request (JStr ''0xb1''))])"
    using waitForBatchConfirmation_outcomes
        [where k = 1 and maxAttempts = 60 and batchId = "JStr ''0xb1''" and tr = "[]"
           and provider = "HasRequest (scripted [Inr pending_status, Inr failed_status]
                 (Inr pending_status))"
           and st = failed_status and err = "JStr ''out of gas''" and s = "''out of gas''"
           and intervalMs = 2000,
         THEN conjunct2, THEN conjunct1]
    by (simp add: defs)
  moreover have "waitForBatchConfirmation
     (HasRequest (scripted [Inr pending_status, Inr unprintable_failed_status] (Inr pending_status)))
     (JStr ''0xb1'') (Some 60) (Some 2000) [] =
     (Inl (JsError ''Cannot convert object to primitive value''),
      [Request (status_request (JStr ''0xb1'')), Sleep 2000,
       Request (status_request (JStr ''0xb1''))])"
    using waitForBatchConfirmation_outcomes
        [where k = 1 and maxAttempts = 60 and batchId = "JStr ''0xb1''" and tr = "[]"
           and provider = "HasRequest (scripted [Inr pending_status, Inr unprintable_failed_status]
                 (Inr pending_status))"
           and st = unprintable_failed_status and err = "JObj [(''toString'', JNull)]"
           and e = "JsError ''Cannot convert object to primitive value''"
           and intervalMs = 2000,
         THEN conjunct2, THEN conjunct2, THEN conjunct1]
    by (simp add: defs)
  moreover have "waitForBatchConfirmation
     (HasRequest (scripted [] (Inr pending_status)))
     (JStr ''0xb1'') (Some 2) (Some 2000) [] =
     (Inl (JsError ''Batch confirmation timeout''),
      [Request (status_request (JStr ''0xb1'')), Sleep 2000,
       Request (status_request (JStr ''0xb1'')), Sleep 2000])"
    using waitForBatchConfirmation_outcomes
        [where maxAttempts = 2 and batchId = "JStr ''0xb1''" and tr = "[]"
           and provider = "HasRequest (scripted [] (Inr pending_status))" and intervalMs = 2000,
         THEN conjunct2, THEN conjunct2, THEN conjunct2]
    by (simp add: defs)
  ultimately show ?thesis by blast
qed

lemma wait_loop_first_failed_unprintable:
  "wait_loop (HasRequest (scripted [Inr unprintable_failed_status] (Inr pending_status)))
     (JStr ''0xb1'') 60 2000 0 [] =
   (Inl (JsError ''Cannot convert object to primitive value''),
    [Request (status_request (JStr ''0xb1''))])"
  by (subst wait_loop.simps)
     (simp add: getCallsStatus_def scripted_def unprintable_failed_status_def status_request_def)

theorem waitForBatchConfirmation_failed_error_counterexample:
  "get_member unprintable_failed_status ''status'' = Inr (JStr ''FAILED'')
   \<and> get_member unprintable_failed_status ''error'' = Inr (JObj [(''toString'', JNull)])
   \<and> waitForBatchConfirmation
       (HasRequest (scripted [Inr unprintable_failed_status] (Inr pending_status)))
       (JStr ''0xb1'') (Some 60) (Some 2000) [] =
     (Inl (JsError ''Cannot convert object to primitive value''),
      [Request (status_request (JStr ''0xb1''))])"
  by (simp add: waitForBatchConfirmation_def wait_loop_first_failed_unprintable)
     (simp add: unprintable_failed_status_def)

text \<open>
  C2. \<open>waitForBatchConfirmation\<close> is one bounded polling loop. Whatever the provider
  answers, the events it adds to the trace are an initial part of \<open>maxAttempts\<close>
  repetitions of "one \<open>wallet_getCallsStatus\<close> query of the batch, one wait of
  \<open>intervalMs\<close>": at most \<open>maxAttempts\<close> queries, a wait of \<open>intervalMs\<close> between any two
  consecutive ones, and at most \<open>maxAttempts\<close> iterations before it returns or throws.
  Omitted arguments stand for 60 attempts and 2000 ms. With \<open>maxAttempts = 0\<close> it throws
  the timeout error and the trace is unchanged.
\<close>

theorem waitForBatchConfirmation_bounded:
  "(\<exists>new. snd (waitForBatchConfirmation provider batchId (Some maxAttempts) (Some intervalMs) tr) = tr @ new \<and>
      prefix new (poll_pattern (status_request batchId) intervalMs maxAttempts) \<and>
      length (requests new) \<le> maxAttempts \<and>
      set (requests new) \<subseteq> {status_request batchId} \<and>
      length new \<le> 2 * maxAttempts)
   \<and>
   (\<exists>new. snd (waitForBatchConfirmation provider batchId None None tr) = tr @ new \<and>
      prefix new (poll_pattern (status_request batchId) 2000 60) \<and>
      length (requests new) \<le> 60)
   \<and>
   ((\<exists>status. fst (waitForBatchConfirmation provider batchId (Some maxAttempts) (Some intervalMs) tr) = Inr status) \<or>
    (\<exists>e. fst (waitForBatchConfirmation provider batchId (Some maxAttempts) (Some intervalMs) tr) = Inl e))
   \<and>
   waitForBatchConfirmation provider batchId (Some 0) (Some intervalMs) tr =
     (Inl (JsError ''Batch confirmation timeout''), tr)"
proof (intro conjI)
  let ?q = "status_request batchId"
  obtain new where new: "snd (wait_loop provider batchId maxAttempts intervalMs 0 tr) = tr @ new"
    and pre: "prefix new (poll_pattern ?q intervalMs (maxAttempts - 0))"
    using wait_loop_trace by blast
  from pre have pre': "prefix new (poll_pattern ?q intervalMs maxAttempts)" by simp
  have len: "length new \<le> 2 * maxAttempts"
    using prefix_length_le[OF pre'] by (simp add: poll_pattern_def length_concat sum_list_replicate)
  show "\<exists>new. snd (waitForBatchConfirmation provider batchId (Some maxAttempts) (Some intervalMs) tr) = tr @ new \<and>
      prefix new (poll_pattern ?q intervalMs maxAttempts) \<and>
      length (requests new) \<le> maxAttempts \<and>
      set (requests new) \<subseteq> {?q} \<and> length new \<le> 2 * maxAttempts"
    using new pre' len prefix_poll_pattern_requests[OF pre']
    by (intro exI[of _ new]) (simp add: waitForBatchConfirmation_def)
  obtain new' where new': "snd (wait_loop provider batchId 60 2000 0 tr) = tr @ new'"
    and pre2: "prefix new' (poll_pattern ?q 2000 (60 - 0))"
    using wait_loop_trace by blast
  from pre2 have pre2': "prefix new' (poll_pattern ?q 2000 60)" by simp
  show "\<exists>new. snd (waitForBatchConfirmation provider batchId None None tr) = tr @ new \<and>
      prefix new (poll_pattern ?q 2000 60) \<and> length (requests new) \<le> 60"
    using new' pre2' prefix_poll_pattern_requests(1)[OF pre2']
    by (intro exI[of _ new']) (simp add: waitForBatchConfirmation_def)
  show "(\<exists>status. fst (waitForBatchConfirmation provider batchId (Some maxAttempts) (Some intervalMs) tr) = Inr status) \<or>
    (\<exists>e. fst (waitForBatchConfirmation provider batchId (Some maxAttempts) (Some intervalMs) tr) = Inl e)"
    by (cases "fst (waitForBatchConfirmation provider batchId (Some maxAttempts) (Some intervalMs) tr)") simp_all
  show "waitForBatchConfirmation provider batchId (Some 0) (Some intervalMs) tr =
     (Inl (JsError ''Batch confirmation timeout''), tr)"
    by (simp add: waitForBatchConfirmation_def wait_loop_exhausted)
qed

theorem waitForBatchConfirmation_bounded_witness:
  "length (requests (snd (waitForBatchConfirmation
      (HasRequest (scripted [] (Inr pending_status))) (JStr ''0xb1'') (Some 3) (Some 2000) []))) \<le> 3
   \<and> waitForBatchConfirmation (HasRequest (scripted [] (Inr pending_status))) (JStr ''0xb1'')
        (Some 0) (Some 2000) [] = (Inl (JsError ''Batch confirmation timeout''), [])"
  using waitForBatchConfirmation_bounded
    [of "HasRequest (scripted [] (Inr pending_status))" "JStr ''0xb1''" 3 2000 "[]"]
  by auto

section \<open>The three copies of the polling loop\<close>

lemma polling_outcome_exhausted:
  "\<not> n < cap \<Longrightarrow> polling_outcome provider batchId cap interval n tr = (TimedOut, tr)"
  by (subst polling_outcome.simps) simp

lemma wait_loop_polling_outcome:
  "wait_loop provider batchId cap interval n tr =
     (helper_result (fst (polling_outcome provider batchId cap interval n tr)),
      snd (polling_outcome provider batchId cap interval n tr))"
proof (induction "cap - n" arbitrary: n tr)
  case 0
  then have "\<not> n < cap" by simp
  then show ?case by (simp add: wait_loop_exhausted polling_outcome_exhausted)
next
  case (Suc m)
  then have lt: "n < cap" and m: "m = cap - Suc n" by simp_all
  note IH = Suc.hyps(1)[OF m]
  show ?case
    using lt
    by (subst wait_loop.simps, subst (1 2) polling_outcome.simps)
       (auto simp: getCallsStatus_def IH split: prod.splits sum.splits)
qed

lemma create_confirm_loop_polling_outcome:
  "create_confirm_loop provider batchId n tr =
     (case polling_outcome provider batchId 60 2000 n tr of
        (TimedOut, tr') \<Rightarrow> (Inr False, tr')
      | (Confirmed status, tr') \<Rightarrow> (Inr True, tr')
      | (out, tr') \<Rightarrow> (map_sum id (\<lambda>_. True) (inline_result out), tr'))"
proof (induction "60 - n" arbitrary: n tr)
  case 0
  then have "\<not> n < 60" by simp
  then show ?case
    by (subst create_confirm_loop.simps) (simp add: polling_outcome_exhausted)
next
  case (Suc m)
  then have lt: "n < 60" and m: "m = 60 - Suc n" by simp_all
  note IH = Suc.hyps(1)[OF m]
  show ?case
    using lt
    by (subst create_confirm_loop.simps, subst polling_outcome.simps)
       (auto simp: status_request_def IH split: prod.splits sum.splits)
qed

lemma donate_confirm_loop_polling_outcome:
  "donate_confirm_loop provider batchId n tr =
     (case polling_outcome provider batchId 60 2000 n tr of
        (TimedOut, tr') \<Rightarrow> (Inr False, tr')
      | (Confirmed status, tr') \<Rightarrow> (Inr True, tr')
      | (out, tr') \<Rightarrow> (map_sum id (\<lambda>_. True) (inline_result out), tr'))"
proof (induction "60 - n" arbitrary: n tr)
  case 0
  then have "\<not> n < 60" by simp
  then show ?case
    by (subst donate_confirm_loop.simps) (simp add: polling_outcome_exhausted)
next
  case (Suc m)
  then have lt: "n < 60" and m: "m = 60 - Suc n" by simp_all
  note IH = Suc.hyps(1)[OF m]
  show ?case
    using lt
    by (subst donate_confirm_loop.simps, subst polling_outcome.simps)
       (auto simp: status_request_def IH split: prod.splits sum.splits)
qed

lemma create_confirm_polling_outcome:
  "create_confirm provider batchId tr =
     (inline_result (fst (polling_outcome provider batchId 60 2000 0 tr)),
      snd (polling_outcome provider batchId 60 2000 0 tr))"
  by (simp add: create_confirm_def create_confirm_loop_polling_outcome
        split: prod.splits poll_outcome.splits sum.splits)

lemma donate_confirm_polling_outcome:
  "donate_confirm provider batchId tr =
     (inline_result (fst (polling_outcome provider batchId 60 2000 0 tr)),
      snd (polling_outcome provider batchId 60 2000 0 tr))"
  by (simp add: donate_confirm_def donate_confirm_loop_polling_outcome
        split: prod.splits poll_outcome.splits sum.splits)


text \<open>
  C3, as the code has it. The helper with 60 attempts and 2000 ms and the two inline
  loops (each with the check of \<open>confirmed\<close> after it) are the same polling loop: for
  every provider, batch and starting trace they make the same polls and the same waits
  and end in the same way, and a rejected poll, an unreadable status or a reported error
  that cannot be converted to a string raises the same value in all three. They differ in what they make of the end: the helper returns the
  status object where the inline loops only go on, and the errors that the loops create
  themselves are worded \<open>Batch failed: E\<close> and \<open>Batch confirmation timeout\<close> in the helper
  but \<open>Transaction failed: E\<close> and \<open>Transaction confirmation timeout\<close> inline.
\<close>

theorem confirmation_loops_same_up_to_wording:
  "waitForBatchConfirmation provider batchId (Some 60) (Some 2000) tr =
     (helper_result (fst (polling_outcome provider batchId 60 2000 0 tr)),
      snd (polling_outcome provider batchId 60 2000 0 tr))
   \<and> create_confirm provider batchId tr =
     (inline_result (fst (polling_outcome provider batchId 60 2000 0 tr)),
      snd (polling_outcome provider batchId 60 2000 0 tr))
   \<and> donate_confirm provider batchId tr =
     (inline_result (fst (polling_outcome provider batchId 60 2000 0 tr)),
      snd (polling_outcome provider batchId 60 2000 0 tr))
   \<and> snd (create_confirm provider batchId tr) =
       snd (waitForBatchConfirmation provider batchId (Some 60) (Some 2000) tr)
   \<and> snd (donate_confirm provider batchId tr) =
       snd (waitForBatchConfirmation provider batchId (Some 60) (Some 2000) tr)
   \<and> create_confirm provider batchId tr = donate_confirm provider batchId tr"
  by (simp add: waitForBatchConfirmation_def wait_loop_polling_outcome
        create_confirm_polling_outcome donate_confirm_polling_outcome)

lemma polling_outcome_first_failed:
  "polling_outcome (HasRequest (scripted [Inr failed_status] (Inr pending_status)))
     (JStr ''0xb1'') 60 2000 0 [] =
   (Failed (JStr ''out of gas''), [Request (status_request (JStr ''0xb1''))])"
  by (subst polling_outcome.simps) (simp add: scripted_def failed_status_def)

theorem confirmation_loops_error_values_counterexample:
  "fst (waitForBatchConfirmation (HasRequest (scripted [Inr failed_status] (Inr pending_status)))
          (JStr ''0xb1'') (Some 60) (Some 2000) []) = Inl (JsError ''Batch failed: out of gas'')
   \<and> fst (create_confirm (HasRequest (scripted [Inr failed_status] (Inr pending_status)))
          (JStr ''0xb1'') []) = Inl (JsError ''Transaction failed: out of gas'')
   \<and> fst (donate_confirm (HasRequest (scripted [Inr failed_status] (Inr pending_status)))
          (JStr ''0xb1'') []) = Inl (JsError ''Transaction failed: out of gas'')
   \<and> thrown_by (fst (waitForBatchConfirmation
          (HasRequest (scripted [Inr failed_status] (Inr pending_status)))
          (JStr ''0xb1'') (Some 60) (Some 2000) []))
      \<noteq> thrown_by (fst (create_confirm
          (HasRequest (scripted [Inr failed_status] (Inr pending_status))) (JStr ''0xb1'') []))
   \<and> thrown_by (fst (waitForBatchConfirmation
          (HasRequest (scripted [Inr failed_status] (Inr pending_status)))
          (JStr ''0xb1'') (Some 60) (Some 2000) []))
      \<noteq> thrown_by (fst (donate_confirm
          (HasRequest (scripted [Inr failed_status] (Inr pending_status))) (JStr ''0xb1'') []))"
  by (simp add: waitForBatchConfirmation_def wait_loop_polling_outcome
        create_confirm_polling_outcome donate_confirm_polling_outcome
        polling_outcome_first_failed)

section \<open>Submissions\<close>

lemma hex_chars:
  "char_of (49::nat) = CHR ''1''" "char_of (52::nat) = CHR ''4''"
  "char_of (97::nat) = CHR ''a''" "char_of (51::nat) = CHR ''3''"
  by code_simp+

lemma numberToHex_baseSepolia: "numberToHex baseSepolia_id = ''0x14a34''"
  by (simp add: numberToHex_def baseSepolia_id_def hex_digits.simps hex_char_def hex_chars)

lemma polling_outcome_trace:
  "\<exists>new. snd (polling_outcome provider batchId cap interval n tr) = tr @ new \<and>
     prefix new (poll_pattern (status_request batchId) interval (cap - n))"
  using wait_loop_trace[of provider batchId cap interval n tr]
  by (simp add: wait_loop_polling_outcome)

lemma sendTransaction_cases:
  "sendTransaction provider fromAddress contractAddress paymasterUrl data tr =
     (if \<not> has_request provider then
        (Inl (JsError ''No provider available. Please connect to a base account''), tr)
      else if paymasterUrl = [] then (Inl (JsError ''Paymaster URL is required!''), tr)
      else provider_request provider
             (sendCalls_request (JStr fromAddress) (JStr contractAddress) data (JStr paymasterUrl)) tr)"
  unfolding sendTransaction_def sendCalls_request_def numberToHex_baseSepolia Let_def
  by (rule refl)

lemma handleCreateDonation_try_cases:
  "handleCreateDonation_try env encode amountStr descr tr =
     (case encode amountStr descr of
        Inl e \<Rightarrow> (Inl e, tr)
      | Inr data \<Rightarrow> submit_and_confirm env data tr)"
proof (cases "encode amountStr descr")
  case (Inl e)
  then show ?thesis by (simp add: handleCreateDonation_try_def)
next
  case (Inr data)
  let ?q = "sendCalls_request (account_value (env_account env))
                (JStr (env_contractAddress env)) data (env_paymasterUrl env)"
  obtain r tr1 where req: "provider_request (env_provider env) ?q tr = (r, tr1)"
    by (cases "provider_request (env_provider env) ?q tr")
  have req': "provider_request (env_provider env)
       \<lparr>method' = ''wallet_sendCalls'',
          params = [JObj
            [(''version'', JStr ''1.0''),
             (''chainId'', JStr (numberToHex baseSepolia_id)),
             (''from'', account_value (env_account env)),
             (''calls'', JArr [JObj [(''to'', JStr (env_contractAddress env)), (''value'', JStr ''0x0''),
                              (''data'', data)]]),
             (''capabilities'',
                JObj [(''paymasterService'', JObj [(''url'', env_paymasterUrl env)])])]]\<rparr> tr = (r, tr1)"
    using req unfolding sendCalls_request_def numberToHex_baseSepolia .
  show ?thesis
  proof (cases r)
    case (Inl e)
    then show ?thesis
      using Inr req req' by (simp add: handleCreateDonation_try_def submit_and_confirm_def)
  next
    case batch: (Inr batchId)
    obtain out tr2 where po: "polling_outcome (env_provider env) batchId 60 2000 0 tr1 = (out, tr2)"
      by (cases "polling_outcome (env_provider env) batchId 60 2000 0 tr1")
    show ?thesis
      using Inr batch req req' po
      by (cases out)
         (simp_all add: handleCreateDonation_try_def submit_and_confirm_def
            create_confirm_polling_outcome split: sum.splits)
  qed
qed


lemma handleDonate_try_cases:
  "handleDonate_try env encode ident amountStr tr =
     (case encode ident amountStr of
        Inl e \<Rightarrow> (Inl e, tr)
      | Inr data \<Rightarrow> submit_and_confirm env data tr)"
proof (cases "encode ident amountStr")
  case (Inl e)
  then show ?thesis by (simp add: handleDonate_try_def)
next
  case (Inr data)
  let ?q = "sendCalls_request (account_value (env_account env))
                (JStr (env_contractAddress env)) data (env_paymasterUrl env)"
  obtain r tr1 where req: "provider_request (env_provider env) ?q tr = (r, tr1)"
    by (cases "provider_request (env_provider env) ?q tr")
  have req': "provider_request (env_provider env)
       \<lparr>method' = ''wallet_sendCalls'',
          params = [JObj
            [(''version'', JStr ''1.0''),
             (''chainId'', JStr (numberToHex baseSepolia_id)),
             (''from'', account_value (env_account env)),
             (''calls'', JArr [JObj [(''to'', JStr (env_contractAddress env)), (''value'', JStr ''0x0''),
                              (''data'', data)]]),
             (''capabilities'',
                JObj [(''paymasterService'', JObj [(''url'', env_paymasterUrl env)])])]]\<rparr> tr = (r, tr1)"
    using req unfolding sendCalls_request_def numberToHex_baseSepolia .
  show ?thesis
  proof (cases r)
    case (Inl e)
    then show ?thesis
      using Inr req req' by (simp add: handleDonate_try_def submit_and_confirm_def)
  next
    case batch: (Inr batchId)
    obtain out tr2 where po: "polling_outcome (env_provider env) batchId 60 2000 0 tr1 = (out, tr2)"
      by (cases "polling_outcome (env_provider env) batchId 60 2000 0 tr1")
    show ?thesis
      using Inr batch req req' po
      by (cases out)
         (simp_all add: handleDonate_try_def submit_and_confirm_def
            donate_confirm_polling_outcome split: sum.splits)
  qed
qed

lemma submit_and_confirm_shape:
  "\<exists>polls b.
     snd (submit_and_confirm env data tr) =
       tr @ (if has_request (env_provider env)
             then [Request (sendCalls_request (account_value (env_account env))
                     (JStr (env_contractAddress env)) data (env_paymasterUrl env))]
             else [])
          @ polls
          @ (case fst (submit_and_confirm env data tr) of
               Inr _ \<Rightarrow> [IncRefreshTrigger] | Inl _ \<Rightarrow> []) \<and>
     prefix polls (poll_pattern (status_request b) 2000 60) \<and>
     (\<not> has_request (env_provider env) \<longrightarrow> polls = [])"
proof (cases "env_provider env")
  case NullProvider
  then show ?thesis by (simp add: submit_and_confirm_def)
next
  case NoRequest
  then show ?thesis by (simp add: submit_and_confirm_def)
next
  case (HasRequest f)
  let ?q = "sendCalls_request (account_value (env_account env))
                (JStr (env_contractAddress env)) data (env_paymasterUrl env)"
  show ?thesis
  proof (cases "f (requests tr) ?q")
    case (Inl e)
    then show ?thesis using HasRequest by (simp add: submit_and_confirm_def)
  next
    case (Inr batchId)
    show ?thesis
    proof (cases "falsy batchId")
      case True
      then show ?thesis using HasRequest Inr by (simp add: submit_and_confirm_def)
    next
      case False
      obtain out tr2 where po:
        "polling_outcome (HasRequest f) batchId 60 2000 0 (tr @ [Request ?q]) = (out, tr2)"
        by (cases "polling_outcome (HasRequest f) batchId 60 2000 0 (tr @ [Request ?q])")
      obtain new where new: "tr2 = (tr @ [Request ?q]) @ new"
        and pre: "prefix new (poll_pattern (status_request batchId) 2000 60)"
        using polling_outcome_trace[of "HasRequest f" batchId 60 2000 0 "tr @ [Request ?q]"] po
        by auto
      have "snd (submit_and_confirm env data tr) =
          tr @ [Request ?q] @ new @
            (case fst (submit_and_confirm env data tr) of
               Inr _ \<Rightarrow> [IncRefreshTrigger] | Inl _ \<Rightarrow> [])"
        using HasRequest Inr False po new
        by (cases out) (simp_all add: submit_and_confirm_def split: sum.splits)
      then show ?thesis using HasRequest pre by auto
    qed
  qed
qed


lemma handleCreateDonation_run_handler:
  "handleCreateDonation env encode amountStr descr tr =
     run_handler env (encode amountStr descr) ''Failed to create donation'' tr"
  by (simp add: handleCreateDonation_def run_handler_def handleCreateDonation_try_cases)

lemma handleDonate_run_handler:
  "handleDonate env encode ident amountStr tr =
     run_handler env (encode ident amountStr) ''Failed to process donation'' tr"
  by (simp add: handleDonate_def run_handler_def handleDonate_try_cases)

lemma run_handler_not_connected:
  "provider_falsy (env_provider env) \<or> account_falsy (env_account env) \<Longrightarrow>
   run_handler env enc fallback tr = (Inr (), tr @ [SetError ''Wallet not connected''])"
  by (simp add: run_handler_def)

lemma run_handler_connected:
  assumes "\<not> provider_falsy (env_provider env)" and "\<not> account_falsy (env_account env)"
  shows "\<exists>polls b.
     snd (run_handler env enc fallback tr) =
       tr @ [SetError [], SetIsLoading True]
          @ (case enc of
               Inr data \<Rightarrow>
                 if has_request (env_provider env)
                 then [Request (sendCalls_request (account_value (env_account env))
                         (JStr (env_contractAddress env)) data (env_paymasterUrl env))]
                 else []
             | Inl _ \<Rightarrow> [])
          @ polls
          @ (case fst (run_handler env enc fallback tr) of
               Inr _ \<Rightarrow> [IncRefreshTrigger]
             | Inl err \<Rightarrow> [SetError (message_or err fallback)])
          @ [SetIsLoading False] \<and>
     prefix polls (poll_pattern (status_request b) 2000 60) \<and>
     (\<not> has_request (env_provider env) \<longrightarrow> polls = []) \<and>
     ((\<exists>e. enc = Inl e) \<longrightarrow> polls = [])"
proof (cases enc)
  case (Inl e)
  then show ?thesis using assms by (simp add: run_handler_def)
next
  case (Inr data)
  let ?tr0 = "tr @ [SetError [], SetIsLoading True]"
  obtain polls b where
    shape: "snd (submit_and_confirm env data ?tr0) =
       ?tr0 @ (if has_request (env_provider env)
             then [Request (sendCalls_request (account_value (env_account env))
                     (JStr (env_contractAddress env)) data (env_paymasterUrl env))]
             else [])
          @ polls
          @ (case fst (submit_and_confirm env data ?tr0) of
               Inr _ \<Rightarrow> [IncRefreshTrigger] | Inl _ \<Rightarrow> [])"
    and pre: "prefix polls (poll_pattern (status_request b) 2000 60)"
    and none: "\<not> has_request (env_provider env) \<longrightarrow> polls = []"
    using submit_and_confirm_shape[of env data ?tr0] by blast
  obtain r tr1 where sc: "submit_and_confirm env data ?tr0 = (r, tr1)"
    by (cases "submit_and_confirm env data ?tr0")
  have "snd (run_handler env enc fallback tr) =
       tr @ [SetError [], SetIsLoading True]
          @ (if has_request (env_provider env)
             then [Request (sendCalls_request (account_value (env_account env))
                     (JStr (env_contractAddress env)) data (env_paymasterUrl env))]
             else [])
          @ polls
          @ (case fst (run_handler env enc fallback tr) of
               Inr _ \<Rightarrow> [IncRefreshTrigger]
             | Inl err \<Rightarrow> [SetError (message_or err fallback)])
          @ [SetIsLoading False]"
    using assms Inr sc shape by (cases r) (simp_all add: run_handler_def)
  then show ?thesis using Inr pre none by auto
qed

section \<open>The state of the application component\<close>

lemma app_after_append: "app_after s (xs @ ys) = app_after (app_after s xs) ys"
  by (simp add: app_after_def)

lemma app_after_polls:
  "set es \<subseteq> {Request q, Sleep ms} \<Longrightarrow> app_after s es = s"
  by (induction es arbitrary: s) (auto simp: app_after_def)

lemma app_after_prefix_poll_pattern:
  assumes "prefix es (poll_pattern q ms n)"
  shows "app_after s es = s"
proof -
  have "set es \<subseteq> {Request q, Sleep ms}"
    using set_mono_prefix[OF assms] set_poll_pattern[of q ms n] by blast
  then show ?thesis by (rule app_after_polls)
qed

lemma added_append: "added tr (tr @ new) = new"
  by (simp add: added_def)


lemma app_after_sent:
  "app_after s (case enc of
               Inr data \<Rightarrow> if c then [Request (q data)] else []
             | Inl _ \<Rightarrow> []) = s"
  by (cases enc) (simp_all add: app_after_def)

lemma run_handler_state:
  assumes "\<not> provider_falsy (env_provider env)" and "\<not> account_falsy (env_account env)"
  shows "prefix (tr @ [SetError [], SetIsLoading True]) (snd (run_handler env enc fallback tr)) \<and>
     isLoading (app_after s (added tr (snd (run_handler env enc fallback tr)))) = False \<and>
     (case fst (run_handler env enc fallback tr) of
        Inl err \<Rightarrow>
          error (app_after s (added tr (snd (run_handler env enc fallback tr)))) =
            message_or err fallback \<and>
          refreshTrigger (app_after s (added tr (snd (run_handler env enc fallback tr)))) =
            refreshTrigger s
      | Inr _ \<Rightarrow>
          refreshTrigger (app_after s (added tr (snd (run_handler env enc fallback tr)))) =
            refreshTrigger s + 1 \<and>
          error (app_after s (added tr (snd (run_handler env enc fallback tr)))) = [])"
proof -
  let ?R = "run_handler env enc fallback tr"
  let ?sent = "case enc of
               Inr data \<Rightarrow>
                 if has_request (env_provider env)
                 then [Request (sendCalls_request (account_value (env_account env))
                         (JStr (env_contractAddress env)) data (env_paymasterUrl env))]
                 else []
             | Inl _ \<Rightarrow> []"
  let ?fin = "case fst ?R of
               Inr _ \<Rightarrow> [IncRefreshTrigger]
             | Inl err \<Rightarrow> [SetError (message_or err fallback)]"
  obtain polls b where
    shape: "snd ?R = tr @ [SetError [], SetIsLoading True] @ ?sent @ polls @ ?fin @ [SetIsLoading False]"
    and pre: "prefix polls (poll_pattern (status_request b) 2000 60)"
    using run_handler_connected[OF assms, of enc fallback tr] by blast
  have new: "added tr (snd ?R) = [SetError [], SetIsLoading True] @ ?sent @ polls @ ?fin @ [SetIsLoading False]"
    by (subst shape) (rule added_append)
  have s1: "app_after s ([SetError [], SetIsLoading True] @ ?sent @ polls) =
      s\<lparr>error := [], isLoading := True\<rparr>"
    by (simp only: app_after_append app_after_sent app_after_prefix_poll_pattern[OF pre])
       (simp add: app_after_def)
  have s2: "app_after s (added tr (snd ?R)) =
      app_after (s\<lparr>error := [], isLoading := True\<rparr>) (?fin @ [SetIsLoading False])"
  proof -
    have "added tr (snd ?R) =
        ([SetError [], SetIsLoading True] @ ?sent @ polls) @ (?fin @ [SetIsLoading False])"
      unfolding new by simp
    then show ?thesis
      by (simp only: app_after_append[of s "[SetError [], SetIsLoading True] @ ?sent @ polls"] s1)
  qed
  have p: "prefix (tr @ [SetError [], SetIsLoading True]) (snd ?R)"
    by (subst shape) (simp add: prefix_def)
  show ?thesis
    unfolding s2 using p
    by (cases "fst ?R") (simp_all add: app_after_def)
qed

lemma handleCreateDonation_rethrows:
  "\<not> provider_falsy (env_provider env) \<Longrightarrow> \<not> account_falsy (env_account env) \<Longrightarrow>
   fst (handleCreateDonation env encode amountStr descr tr) =
   fst (handleCreateDonation_try env encode amountStr descr (tr @ [SetError [], SetIsLoading True]))"
  by (simp add: handleCreateDonation_def split: prod.splits sum.splits)

lemma handleDonate_rethrows:
  "\<not> provider_falsy (env_provider env) \<Longrightarrow> \<not> account_falsy (env_account env) \<Longrightarrow>
   fst (handleDonate env encode ident amountStr tr) =
   fst (handleDonate_try env encode ident amountStr (tr @ [SetError [], SetIsLoading True]))"
  by (simp add: handleDonate_def split: prod.splits sum.splits)

text \<open>
  C6. Once past the check of the connected wallet, \<open>handleCreateDonation\<close> and
  \<open>handleDonate\<close> first clear the error and set \<open>isLoading\<close>; whatever happens then,
  \<open>isLoading\<close> is false when they are done. When the body of the \<open>try\<close> throws, that
  value is what the handler throws to its caller, the error state holds its message
  (or, for a thrown value that is no \<open>Error\<close>, the fixed message of the handler) and
  \<open>refreshTrigger\<close> is as before; when it does not, \<open>refreshTrigger\<close> is one more than
  before and the error state is empty.
\<close>

theorem handlers_loading_and_error_state:
  "(\<not> provider_falsy (env_provider env) \<and> \<not> account_falsy (env_account env) \<longrightarrow>
      prefix (tr @ [SetError [], SetIsLoading True])
        (snd (handleCreateDonation env encode amountStr descr tr)) \<and>
      isLoading (app_after s (added tr (snd (handleCreateDonation env encode amountStr descr tr)))) = False \<and>
      fst (handleCreateDonation env encode amountStr descr tr) =
        fst (handleCreateDonation_try env encode amountStr descr (tr @ [SetError [], SetIsLoading True])) \<and>
      (case fst (handleCreateDonation env encode amountStr descr tr) of
         Inl err \<Rightarrow>
           error (app_after s (added tr (snd (handleCreateDonation env encode amountStr descr tr)))) =
             message_or err ''Failed to create donation'' \<and>
           refreshTrigger (app_after s (added tr (snd (handleCreateDonation env encode amountStr descr tr)))) =
             refreshTrigger s
       | Inr _ \<Rightarrow>
           refreshTrigger (app_after s (added tr (snd (handleCreateDonation env encode amountStr descr tr)))) =
             refreshTrigger s + 1 \<and>
           error (app_after s (added tr (snd (handleCreateDonation env encode amountStr descr tr)))) = []))
   \<and>
   (\<not> provider_falsy (env_provider env) \<and> \<not> account_falsy (env_account env) \<longrightarrow>
      prefix (tr @ [SetError [], SetIsLoading True])
        (snd (handleDonate env encode' ident amountStr tr)) \<and>
      isLoading (app_after s (added tr (snd (handleDonate env encode' ident amountStr tr)))) = False \<and>
      fst (handleDonate env encode' ident amountStr tr) =
        fst (handleDonate_try env encode' ident amountStr (tr @ [SetError [], SetIsLoading True])) \<and>
      (case fst (handleDonate env encode' ident amountStr tr) of
         Inl err \<Rightarrow>
           error (app_after s (added tr (snd (handleDonate env encode' ident amountStr tr)))) =
             message_or err ''Failed to process donation'' \<and>
           refreshTrigger (app_after s (added tr (snd (handleDonate env encode' ident amountStr tr)))) =
             refreshTrigger s
       | Inr _ \<Rightarrow>
           refreshTrigger (app_after s (added tr (snd (handleDonate env encode' ident amountStr tr)))) =
             refreshTrigger s + 1 \<and>
           error (app_after s (added tr (snd (handleDonate env encode' ident amountStr tr)))) = []))"
proof (intro conjI impI)
  assume c: "\<not> provider_falsy (env_provider env) \<and> \<not> account_falsy (env_account env)"
  then have c1: "\<not> provider_falsy (env_provider env)" and c2: "\<not> account_falsy (env_account env)"
    by simp_all
  note st = run_handler_state[OF c1 c2, of tr _ _ s]
  show "prefix (tr @ [SetError [], SetIsLoading True])
        (snd (handleCreateDonation env encode amountStr descr tr))"
    using st[of "encode amountStr descr" "''Failed to create donation''"]
    by (simp only: handleCreateDonation_run_handler)
  show "isLoading (app_after s (added tr (snd (handleCreateDonation env encode amountStr descr tr)))) = False"
    using st[of "encode amountStr descr" "''Failed to create donation''"]
    by (simp only: handleCreateDonation_run_handler)
  show "fst (handleCreateDonation env encode amountStr descr tr) =
        fst (handleCreateDonation_try env encode amountStr descr (tr @ [SetError [], SetIsLoading True]))"
    by (rule handleCreateDonation_rethrows[OF c1 c2])
  show "case fst (handleCreateDonation env encode amountStr descr tr) of
         Inl err \<Rightarrow>
           error (app_after s (added tr (snd (handleCreateDonation env encode amountStr descr tr)))) =
             message_or err ''Failed to create donation'' \<and>
           refreshTrigger (app_after s (added tr (snd (handleCreateDonation env encode amountStr descr tr)))) =
             refreshTrigger s
       | Inr _ \<Rightarrow>
           refreshTrigger (app_after s (added tr (snd (handleCreateDonation env encode amountStr descr tr)))) =
             refreshTrigger s + 1 \<and>
           error (app_after s (added tr (snd (handleCreateDonation env encode amountStr descr tr)))) = []"
    using st[of "encode amountStr descr" "''Failed to create donation''"]
    by (simp only: handleCreateDonation_run_handler)
  show "prefix (tr @ [SetError [], SetIsLoading True])
        (snd (handleDonate env encode' ident amountStr tr))"
    using st[of "encode' ident amountStr" "''Failed to process donation''"]
    by (simp only: handleDonate_run_handler)
  show "isLoading (app_after s (added tr (snd (handleDonate env encode' ident amountStr tr)))) = False"
    using st[of "encode' ident amountStr" "''Failed to process donation''"]
    by (simp only: handleDonate_run_handler)
  show "fst (handleDonate env encode' ident amountStr tr) =
        fst (handleDonate_try env encode' ident amountStr (tr @ [SetError [], SetIsLoading True]))"
    by (rule handleDonate_rethrows[OF c1 c2])
  show "case fst (handleDonate env encode' ident amountStr tr) of
         Inl err \<Rightarrow>
           error (app_after s (added tr (snd (handleDonate env encode' ident amountStr tr)))) =
             message_or err ''Failed to process donation'' \<and>
           refreshTrigger (app_after s (added tr (snd (handleDonate env encode' ident amountStr tr)))) =
             refreshTrigger s
       | Inr _ \<Rightarrow>
           refreshTrigger (app_after s (added tr (snd (handleDonate env encode' ident amountStr tr)))) =
             refreshTrigger s + 1 \<and>
           error (app_after s (added tr (snd (handleDonate env encode' ident amountStr tr)))) = []"
    using st[of "encode' ident amountStr" "''Failed to process donation''"]
    by (simp only: handleDonate_run_handler)
qed


lemma demo_create_confirmed:
  "handleCreateDonation (demo_env [Inr pending_status, Inr confirmed_status])
     (\<lambda>amountStr descr. Inr (JStr ''0xdata'')) ''1.5'' ''school'' [] =
   (Inr (),
    [SetError [], SetIsLoading True,
     Request (sendCalls_request (JStr ''0xA11ce'') (JStr ''0xC0ffee'') (JStr ''0xdata'')
                (JStr ''https://paymaster.example/rpc'')),
     Request (status_request (JStr ''0xb1'')), Sleep 2000,
     Request (status_request (JStr ''0xb1'')),
     IncRefreshTrigger, SetIsLoading False])"
  by (simp add: handleCreateDonation_run_handler run_handler_def submit_and_confirm_def
        demo_env_def scripted_def pending_status_def confirmed_status_def
        polling_outcome.simps[of _ _ _ _ 0] polling_outcome.simps[of _ _ _ _ "Suc 0"])

lemma demo_donate_failed:
  "handleDonate (demo_env [Inr failed_status])
     (\<lambda>ident amountStr. Inr (JStr ''0xdata'')) 3 ''0.1'' [] =
   (Inl (JsError ''Transaction failed: out of gas''),
    [SetError [], SetIsLoading True,
     Request (sendCalls_request (JStr ''0xA11ce'') (JStr ''0xC0ffee'') (JStr ''0xdata'')
                (JStr ''https://paymaster.example/rpc'')),
     Request (status_request (JStr ''0xb1'')),
     SetError ''Transaction failed: out of gas'', SetIsLoading False])"
  by (simp add: handleDonate_run_handler run_handler_def submit_and_confirm_def
        demo_env_def scripted_def failed_status_def
        polling_outcome.simps[of _ _ _ _ 0])

theorem handlers_loading_and_error_state_witness:
  "fst (handleCreateDonation (demo_env [Inr pending_status, Inr confirmed_status])
          (\<lambda>amountStr descr. Inr (JStr ''0xdata'')) ''1.5'' ''school'' []) = Inr ()
   \<and> isLoading (app_after demo_state (added []
        (snd (handleCreateDonation (demo_env [Inr pending_status, Inr confirmed_status])
          (\<lambda>amountStr descr. Inr (JStr ''0xdata'')) ''1.5'' ''school'' [])))) = False
   \<and> refreshTrigger (app_after demo_state (added []
        (snd (handleCreateDonation (demo_env [Inr pending_status, Inr confirmed_status])
          (\<lambda>amountStr descr. Inr (JStr ''0xdata'')) ''1.5'' ''school'' [])))) = 8
   \<and> fst (handleDonate (demo_env [Inr failed_status])
          (\<lambda>ident amountStr. Inr (JStr ''0xdata'')) 3 ''0.1'' []) =
        Inl (JsError ''Transaction failed: out of gas'')
   \<and> isLoading (app_after demo_state (added []
        (snd (handleDonate (demo_env [Inr failed_status])
          (\<lambda>ident amountStr. Inr (JStr ''0xdata'')) 3 ''0.1'' [])))) = False
   \<and> error (app_after demo_state (added []
        (snd (handleDonate (demo_env [Inr failed_status])
          (\<lambda>ident amountStr. Inr (JStr ''0xdata'')) 3 ''0.1'' [])))) = ''Transaction failed: out of gas''
   \<and> refreshTrigger (app_after demo_state (added []
        (snd (handleDonate (demo_env [Inr failed_status])
          (\<lambda>ident amountStr. Inr (JStr ''0xdata'')) 3 ''0.1'' [])))) = 7"
proof -
  have conn: "\<not> provider_falsy (env_provider (demo_env polls)) \<and>
      \<not> account_falsy (env_account (demo_env polls))" for polls
    by (simp add: demo_env_def)
  have r1: "fst (handleCreateDonation (demo_env [Inr pending_status, Inr confirmed_status])
          (\<lambda>amountStr descr. Inr (JStr ''0xdata'')) ''1.5'' ''school'' []) = Inr ()"
    by (simp add: demo_create_confirmed)
  have r2: "fst (handleDonate (demo_env [Inr failed_status])
          (\<lambda>ident amountStr. Inr (JStr ''0xdata'')) 3 ''0.1'' []) =
        Inl (JsError ''Transaction failed: out of gas'')"
    by (simp add: demo_donate_failed)
  show ?thesis
    using
      handlers_loading_and_error_state
        [where env = "demo_env [Inr pending_status, Inr confirmed_status]" and tr = "[]"
           and encode = "\<lambda>amountStr descr. Inr (JStr ''0xdata'')" and amountStr = "''1.5''"
           and descr = "''school''" and s = demo_state,
         THEN conjunct1, rule_format, OF conn]
      handlers_loading_and_error_state
        [where env = "demo_env [Inr failed_status]" and tr = "[]"
           and encode' = "\<lambda>ident amountStr. Inr (JStr ''0xdata'')" and ident = 3
           and amountStr = "''0.1''" and s = demo_state,
         THEN conjunct2, rule_format, OF conn]
    by (simp add: r1 r2 demo_state_def)
qed

section \<open>The requests that are made\<close>

lemma sponsored_sendCalls_request: "sponsored url target (sendCalls_request sender target data url)"
  by (simp add: sponsored_def sendCalls_request_def member_def)

lemma method_sendCalls_request [simp]:
  "method' (sendCalls_request sender target data url) = ''wallet_sendCalls''"
  by (simp add: sendCalls_request_def)

lemma method_status_request [simp]: "method' (status_request batchId) = ''wallet_getCallsStatus''"
  by (simp add: status_request_def)

lemma provider_request_trace:
  "snd (provider_request provider q tr) = tr @ (if has_request provider then [Request q] else [])"
  by (cases provider) simp_all

lemma sendTransaction_added:
  "snd (sendTransaction provider fromAddress contractAddress paymasterUrl data tr) =
     tr @ (if has_request provider \<and> paymasterUrl \<noteq> []
           then [Request (sendCalls_request (JStr fromAddress) (JStr contractAddress) data
                   (JStr paymasterUrl))]
           else [])"
  by (simp add: sendTransaction_cases provider_request_trace)

lemma wait_requests:
  "\<exists>new. snd (waitForBatchConfirmation provider batchId maxAttempts intervalMs tr) = tr @ new \<and>
     set (requests new) \<subseteq> {status_request batchId}"
proof -
  obtain new where new: "snd (waitForBatchConfirmation provider batchId maxAttempts intervalMs tr) = tr @ new"
    and pre: "prefix new (poll_pattern (status_request batchId)
        (case intervalMs of None \<Rightarrow> 2000 | Some ms \<Rightarrow> ms)
        ((case maxAttempts of None \<Rightarrow> 60 | Some n \<Rightarrow> n) - 0))"
    unfolding waitForBatchConfirmation_def using wait_loop_trace by blast
  from prefix_poll_pattern_requests(2)[OF pre] new show ?thesis by blast
qed

lemma run_handler_requests:
  "\<exists>polls b.
     snd (run_handler env enc fallback tr) = tr @ added tr (snd (run_handler env enc fallback tr)) \<and>
     requests (added tr (snd (run_handler env enc fallback tr))) =
       (case enc of
          Inr data \<Rightarrow>
            if \<not> provider_falsy (env_provider env) \<and> \<not> account_falsy (env_account env) \<and>
               has_request (env_provider env)
            then [sendCalls_request (account_value (env_account env))
                    (JStr (env_contractAddress env)) data (env_paymasterUrl env)]
            else []
        | Inl _ \<Rightarrow> []) @ polls \<and>
     set polls \<subseteq> {status_request b} \<and> length polls \<le> 60"
proof (cases "provider_falsy (env_provider env) \<or> account_falsy (env_account env)")
  case True
  have "snd (run_handler env enc fallback tr) = tr @ [SetError ''Wallet not connected'']"
    using True by (simp add: run_handler_not_connected)
  then show ?thesis using True
    by (intro exI[of _ "[]"]) (auto simp: added_append split: sum.splits)
next
  case False
  then have c1: "\<not> provider_falsy (env_provider env)" and c2: "\<not> account_falsy (env_account env)"
    by simp_all
  let ?R = "run_handler env enc fallback tr"
  let ?sent = "case enc of
               Inr data \<Rightarrow>
                 if has_request (env_provider env)
                 then [Request (sendCalls_request (account_value (env_account env))
                         (JStr (env_contractAddress env)) data (env_paymasterUrl env))]
                 else []
             | Inl _ \<Rightarrow> []"
  let ?fin = "case fst ?R of
               Inr _ \<Rightarrow> [IncRefreshTrigger]
             | Inl err \<Rightarrow> [SetError (message_or err fallback)]"
  obtain polls b where
    shape: "snd ?R = tr @ [SetError [], SetIsLoading True] @ ?sent @ polls @ ?fin @ [SetIsLoading False]"
    and pre: "prefix polls (poll_pattern (status_request b) 2000 60)"
    using run_handler_connected[OF c1 c2, of enc fallback tr] by blast
  have new: "added tr (snd ?R) = [SetError [], SetIsLoading True] @ ?sent @ polls @ ?fin @ [SetIsLoading False]"
    by (subst shape) (rule added_append)
  have fin: "requests ?fin = []"
    by (cases "fst ?R") simp_all
  have "requests (added tr (snd ?R)) = requests ?sent @ requests polls"
    unfolding new by (simp add: requests_append fin)
  moreover have "requests ?sent = (case enc of
          Inr data \<Rightarrow>
            if \<not> provider_falsy (env_provider env) \<and> \<not> account_falsy (env_account env) \<and>
               has_request (env_provider env)
            then [sendCalls_request (account_value (env_account env))
                    (JStr (env_contractAddress env)) data (env_paymasterUrl env)]
            else []
        | Inl _ \<Rightarrow> [])"
    using c1 c2 by (cases enc) simp_all
  moreover have "snd ?R = tr @ added tr (snd ?R)"
    unfolding new using shape by simp
  ultimately show ?thesis
    using prefix_poll_pattern_requests[OF pre] by (intro exI[of _ "requests polls"]) auto
qed





lemma run_handler_sendCalls:
  "(\<forall>r\<in>set (requests (added tr (snd (run_handler env enc fallback tr)))).
      method' r = ''wallet_sendCalls'' \<longrightarrow>
      sponsored (env_paymasterUrl env) (JStr (env_contractAddress env)) r) \<and>
   length (filter (\<lambda>r. method' r = ''wallet_sendCalls'')
      (requests (added tr (snd (run_handler env enc fallback tr))))) \<le> 1 \<and>
   (\<not> provider_falsy (env_provider env) \<and> \<not> account_falsy (env_account env) \<and>
    has_request (env_provider env) \<and> enc = Inr data \<longrightarrow>
      take 1 (requests (added tr (snd (run_handler env enc fallback tr)))) =
        [sendCalls_request (account_value (env_account env))
           (JStr (env_contractAddress env)) data (env_paymasterUrl env)])"
proof -
  obtain polls b where
    rq: "requests (added tr (snd (run_handler env enc fallback tr))) =
       (case enc of
          Inr data \<Rightarrow>
            if \<not> provider_falsy (env_provider env) \<and> \<not> account_falsy (env_account env) \<and>
               has_request (env_provider env)
            then [sendCalls_request (account_value (env_account env))
                    (JStr (env_contractAddress env)) data (env_paymasterUrl env)]
            else []
        | Inl _ \<Rightarrow> []) @ polls"
    and polls: "set polls \<subseteq> {status_request b}"
    using run_handler_requests[of env enc fallback tr] by blast
  have nf: "filter (\<lambda>r. method' r = ''wallet_sendCalls'') polls = []"
    using polls by (auto simp: filter_empty_conv)
  show ?thesis
    unfolding rq using polls nf
    by (cases enc) (auto simp: sponsored_sendCalls_request)
qed

lemma run_handler_methods:
  "snd (run_handler env enc fallback tr) = tr @ added tr (snd (run_handler env enc fallback tr)) \<and>
   (\<forall>r\<in>set (requests (added tr (snd (run_handler env enc fallback tr)))).
      method' r = ''wallet_sendCalls'' \<or> method' r = ''wallet_getCallsStatus'')"
proof -
  obtain polls b where
    ext: "snd (run_handler env enc fallback tr) = tr @ added tr (snd (run_handler env enc fallback tr))"
    and rq: "requests (added tr (snd (run_handler env enc fallback tr))) =
       (case enc of
          Inr data \<Rightarrow>
            if \<not> provider_falsy (env_provider env) \<and> \<not> account_falsy (env_account env) \<and>
               has_request (env_provider env)
            then [sendCalls_request (account_value (env_account env))
                    (JStr (env_contractAddress env)) data (env_paymasterUrl env)]
            else []
        | Inl _ \<Rightarrow> []) @ polls"
    and polls: "set polls \<subseteq> {status_request b}"
    using run_handler_requests[of env enc fallback tr] by blast
  show ?thesis
    unfolding rq using polls ext
    by (cases enc) auto
qed

text \<open>
  C4. Every request for a submission has the paymaster service in it. The
  \<open>wallet_sendCalls\<close> request of \<open>sendTransaction\<close>, and every \<open>wallet_sendCalls\<close> request
  of \<open>handleCreateDonation\<close> and of \<open>handleDonate\<close>, has \<open>capabilities.paymasterService.url\<close>
  equal to the paymaster URL in use, version \<open>1.0\<close>, the chain id of Base Sepolia in
  hexadecimal (\<open>0x14a34\<close>) and exactly one call, to the contract address, of value \<open>0x0\<close>.
  A run makes at most one such request, and makes it first whenever it gets as far as
  submitting: in \<open>sendTransaction\<close> when the provider and the URL pass the checks, in
  the handlers when the wallet is connected, the provider has a \<open>request\<close> function and the call data
  could be encoded.
\<close>

theorem every_submission_requests_sponsorship:
  "((\<forall>r\<in>set (requests (added tr
        (snd (sendTransaction provider fromAddress contractAddress paymasterUrl data tr)))).
       sponsored (JStr paymasterUrl) (JStr contractAddress) r) \<and>
    (has_request provider \<and> paymasterUrl \<noteq> [] \<longrightarrow>
       length (requests (added tr
         (snd (sendTransaction provider fromAddress contractAddress paymasterUrl data tr)))) = 1))
   \<and>
   ((\<forall>r\<in>set (requests (added tr (snd (handleCreateDonation env encode amountStr descr tr)))).
       method' r = ''wallet_sendCalls'' \<longrightarrow>
       sponsored (env_paymasterUrl env) (JStr (env_contractAddress env)) r) \<and>
    length (filter (\<lambda>r. method' r = ''wallet_sendCalls'')
       (requests (added tr (snd (handleCreateDonation env encode amountStr descr tr))))) \<le> 1 \<and>
    (\<not> provider_falsy (env_provider env) \<and> \<not> account_falsy (env_account env) \<and>
     has_request (env_provider env) \<and> encode amountStr descr = Inr data \<longrightarrow>
       take 1 (requests (added tr (snd (handleCreateDonation env encode amountStr descr tr)))) =
         [sendCalls_request (account_value (env_account env))
            (JStr (env_contractAddress env)) data (env_paymasterUrl env)]))
   \<and>
   ((\<forall>r\<in>set (requests (added tr (snd (handleDonate env encode' ident amountStr tr)))).
       method' r = ''wallet_sendCalls'' \<longrightarrow>
       sponsored (env_paymasterUrl env) (JStr (env_contractAddress env)) r) \<and>
    length (filter (\<lambda>r. method' r = ''wallet_sendCalls'')
       (requests (added tr (snd (handleDonate env encode' ident amountStr tr))))) \<le> 1 \<and>
    (\<not> provider_falsy (env_provider env) \<and> \<not> account_falsy (env_account env) \<and>
     has_request (env_provider env) \<and> encode' ident amountStr = Inr data \<longrightarrow>
       take 1 (requests (added tr (snd (handleDonate env encode' ident amountStr tr)))) =
         [sendCalls_request (account_value (env_account env))
            (JStr (env_contractAddress env)) data (env_paymasterUrl env)]))
   \<and> numberToHex baseSepolia_id = ''0x14a34''"
proof (intro conjI)
  show "\<forall>r\<in>set (requests (added tr
        (snd (sendTransaction provider fromAddress contractAddress paymasterUrl data tr)))).
       sponsored (JStr paymasterUrl) (JStr contractAddress) r"
    by (simp add: sendTransaction_added added_append sponsored_sendCalls_request)
  show "has_request provider \<and> paymasterUrl \<noteq> [] \<longrightarrow>
       length (requests (added tr
         (snd (sendTransaction provider fromAddress contractAddress paymasterUrl data tr)))) = 1"
    by (simp add: sendTransaction_added added_append)
  note c = run_handler_sendCalls[of tr env "encode amountStr descr" "''Failed to create donation''" data,
      folded handleCreateDonation_run_handler]
  show "\<forall>r\<in>set (requests (added tr (snd (handleCreateDonation env encode amountStr descr tr)))).
       method' r = ''wallet_sendCalls'' \<longrightarrow>
       sponsored (env_paymasterUrl env) (JStr (env_contractAddress env)) r"
    using c by blast
  show "length (filter (\<lambda>r. method' r = ''wallet_sendCalls'')
       (requests (added tr (snd (handleCreateDonation env encode amountStr descr tr))))) \<le> 1"
    using c by blast
  show "\<not> provider_falsy (env_provider env) \<and> \<not> account_falsy (env_account env) \<and>
     has_request (env_provider env) \<and> encode amountStr descr = Inr data \<longrightarrow>
       take 1 (requests (added tr (snd (handleCreateDonation env encode amountStr descr tr)))) =
         [sendCalls_request (account_value (env_account env))
            (JStr (env_contractAddress env)) data (env_paymasterUrl env)]"
    using c by blast
  note d = run_handler_sendCalls[of tr env "encode' ident amountStr" "''Failed to process donation''" data,
      folded handleDonate_run_handler]
  show "\<forall>r\<in>set (requests (added tr (snd (handleDonate env encode' ident amountStr tr)))).
       method' r = ''wallet_sendCalls'' \<longrightarrow>
       sponsored (env_paymasterUrl env) (JStr (env_contractAddress env)) r"
    using d by blast
  show "length (filter (\<lambda>r. method' r = ''wallet_sendCalls'')
       (requests (added tr (snd (handleDonate env encode' ident amountStr tr))))) \<le> 1"
    using d by blast
  show "\<not> provider_falsy (env_provider env) \<and> \<not> account_falsy (env_account env) \<and>
     has_request (env_provider env) \<and> encode' ident amountStr = Inr data \<longrightarrow>
       take 1 (requests (added tr (snd (handleDonate env encode' ident amountStr tr)))) =
         [sendCalls_request (account_value (env_account env))
            (JStr (env_contractAddress env)) data (env_paymasterUrl env)]"
    using d by blast
  show "numberToHex baseSepolia_id = ''0x14a34''"
    by (rule numberToHex_baseSepolia)
qed


lemma demo_env_fields:
  "env_paymasterUrl (demo_env polls) = JStr ''https://paymaster.example/rpc''"
  "env_contractAddress (demo_env polls) = ''0xC0ffee''"
  "env_account (demo_env polls) = Some ''0xA11ce''"
  by (simp_all add: demo_env_def)

theorem every_submission_requests_sponsorship_witness:
  "sponsored (JStr ''https://paymaster.example/rpc'') (JStr ''0xC0ffee'')
     (hd (requests (snd (sendTransaction (HasRequest (scripted [] (Inr (JStr ''0xb1''))))
        ''0xA11ce'' ''0xC0ffee'' ''https://paymaster.example/rpc'' (JStr ''0xdata'') []))))
   \<and> sponsored (JStr ''https://paymaster.example/rpc'') (JStr ''0xC0ffee'')
     (hd (requests (snd (handleCreateDonation (demo_env [Inr pending_status, Inr confirmed_status])
        (\<lambda>amountStr descr. Inr (JStr ''0xdata'')) ''1.5'' ''school'' []))))
   \<and> sponsored (JStr ''https://paymaster.example/rpc'') (JStr ''0xC0ffee'')
     (hd (requests (snd (handleDonate (demo_env [Inr failed_status])
        (\<lambda>ident amountStr. Inr (JStr ''0xdata'')) 3 ''0.1'' []))))"
proof -
  have "sponsored (JStr ''https://paymaster.example/rpc'') (JStr ''0xC0ffee'')
     (hd (requests (snd (sendTransaction (HasRequest (scripted [] (Inr (JStr ''0xb1''))))
        ''0xA11ce'' ''0xC0ffee'' ''https://paymaster.example/rpc'' (JStr ''0xdata'') []))))"
    using every_submission_requests_sponsorship
      [where provider = "HasRequest (scripted [] (Inr (JStr ''0xb1'')))" and tr = "[]"
         and fromAddress = "''0xA11ce''" and contractAddress = "''0xC0ffee''"
         and paymasterUrl = "''https://paymaster.example/rpc''" and data = "JStr ''0xdata''",
       THEN conjunct1, THEN conjunct1]
    by (simp add: sendTransaction_added added_def)
  moreover have "sponsored (JStr ''https://paymaster.example/rpc'') (JStr ''0xC0ffee'')
     (hd (requests (snd (handleCreateDonation (demo_env [Inr pending_status, Inr confirmed_status])
        (\<lambda>amountStr descr. Inr (JStr ''0xdata'')) ''1.5'' ''school'' []))))"
    using every_submission_requests_sponsorship
      [where env = "demo_env [Inr pending_status, Inr confirmed_status]" and tr = "[]"
         and encode = "\<lambda>amountStr descr. Inr (JStr ''0xdata'')" and amountStr = "''1.5''"
         and descr = "''school''",
       THEN conjunct2, THEN conjunct1, THEN conjunct1]
    by (simp add: demo_create_confirmed added_def demo_env_fields)
  moreover have "sponsored (JStr ''https://paymaster.example/rpc'') (JStr ''0xC0ffee'')
     (hd (requests (snd (handleDonate (demo_env [Inr failed_status])
        (\<lambda>ident amountStr. Inr (JStr ''0xdata'')) 3 ''0.1'' []))))"
    using every_submission_requests_sponsorship
      [where env = "demo_env [Inr failed_status]" and tr = "[]"
         and encode' = "\<lambda>ident amountStr. Inr (JStr ''0xdata'')" and amountStr = "''0.1''"
         and ident = 3,
       THEN conjunct2, THEN conjunct2, THEN conjunct1, THEN conjunct1]
    by (simp add: demo_donate_failed added_def demo_env_fields)
  ultimately show ?thesis by blast
qed

text \<open>
  C5. The submission and confirmation flow calls the provider with two methods only:
  every request that \<open>sendTransaction\<close>, \<open>getCallsStatus\<close>, \<open>waitForBatchConfirmation\<close>,
  \<open>handleCreateDonation\<close> or \<open>handleDonate\<close> adds to the trace is a \<open>wallet_sendCalls\<close> or
  a \<open>wallet_getCallsStatus\<close> request.
\<close>

theorem only_two_rpc_methods:
  "(prefix tr (snd (sendTransaction provider fromAddress contractAddress paymasterUrl data tr)) \<and>
    (\<forall>r\<in>set (requests (added tr
        (snd (sendTransaction provider fromAddress contractAddress paymasterUrl data tr)))).
       method' r = ''wallet_sendCalls'' \<or> method' r = ''wallet_getCallsStatus''))
   \<and>
   (prefix tr (snd (getCallsStatus provider batchId tr)) \<and>
    (\<forall>r\<in>set (requests (added tr (snd (getCallsStatus provider batchId tr)))).
       method' r = ''wallet_sendCalls'' \<or> method' r = ''wallet_getCallsStatus''))
   \<and>
   (prefix tr (snd (waitForBatchConfirmation provider batchId maxAttempts intervalMs tr)) \<and>
    (\<forall>r\<in>set (requests (added tr
        (snd (waitForBatchConfirmation provider batchId maxAttempts intervalMs tr)))).
       method' r = ''wallet_sendCalls'' \<or> method' r = ''wallet_getCallsStatus''))
   \<and>
   (prefix tr (snd (handleCreateDonation env encode amountStr descr tr)) \<and>
    (\<forall>r\<in>set (requests (added tr (snd (handleCreateDonation env encode amountStr descr tr)))).
       method' r = ''wallet_sendCalls'' \<or> method' r = ''wallet_getCallsStatus''))
   \<and>
   (prefix tr (snd (handleDonate env encode' ident amountStr tr)) \<and>
    (\<forall>r\<in>set (requests (added tr (snd (handleDonate env encode' ident amountStr tr)))).
       method' r = ''wallet_sendCalls'' \<or> method' r = ''wallet_getCallsStatus''))"
proof (intro conjI)
  show "prefix tr (snd (sendTransaction provider fromAddress contractAddress paymasterUrl data tr))"
    by (simp add: sendTransaction_added)
  show "\<forall>r\<in>set (requests (added tr
        (snd (sendTransaction provider fromAddress contractAddress paymasterUrl data tr)))).
       method' r = ''wallet_sendCalls'' \<or> method' r = ''wallet_getCallsStatus''"
    by (simp add: sendTransaction_added added_append)
  show "prefix tr (snd (getCallsStatus provider batchId tr))"
    by (simp add: getCallsStatus_def provider_request_trace)
  show "\<forall>r\<in>set (requests (added tr (snd (getCallsStatus provider batchId tr)))).
       method' r = ''wallet_sendCalls'' \<or> method' r = ''wallet_getCallsStatus''"
    by (simp add: getCallsStatus_def provider_request_trace added_append)
  obtain new where new:
    "snd (waitForBatchConfirmation provider batchId maxAttempts intervalMs tr) = tr @ new"
    and rq: "set (requests new) \<subseteq> {status_request batchId}"
    using wait_requests by blast
  show "prefix tr (snd (waitForBatchConfirmation provider batchId maxAttempts intervalMs tr))"
    by (simp add: new)
  show "\<forall>r\<in>set (requests (added tr
        (snd (waitForBatchConfirmation provider batchId maxAttempts intervalMs tr)))).
       method' r = ''wallet_sendCalls'' \<or> method' r = ''wallet_getCallsStatus''"
    using rq by (auto simp: new added_append)
  note c = run_handler_methods[of env "encode amountStr descr" "''Failed to create donation''" tr,
      folded handleCreateDonation_run_handler]
  show "prefix tr (snd (handleCreateDonation env encode amountStr descr tr))"
    using c by (metis prefixI)
  show "\<forall>r\<in>set (requests (added tr (snd (handleCreateDonation env encode amountStr descr tr)))).
       method' r = ''wallet_sendCalls'' \<or> method' r = ''wallet_getCallsStatus''"
    using c by blast
  note d = run_handler_methods[of env "encode' ident amountStr" "''Failed to process donation''" tr,
      folded handleDonate_run_handler]
  show "prefix tr (snd (handleDonate env encode' ident amountStr tr))"
    using d by (metis prefixI)
  show "\<forall>r\<in>set (requests (added tr (snd (handleDonate env encode' ident amountStr tr)))).
       method' r = ''wallet_sendCalls'' \<or> method' r = ''wallet_getCallsStatus''"
    using d by blast
qed

theorem only_two_rpc_methods_witness:
  "map method' (requests (added []
     (snd (handleCreateDonation (demo_env [Inr pending_status, Inr confirmed_status])
        (\<lambda>amountStr descr. Inr (JStr ''0xdata'')) ''1.5'' ''school'' [])))) =
   [''wallet_sendCalls'', ''wallet_getCallsStatus'', ''wallet_getCallsStatus'']
   \<and> (method' (hd (requests (added []
     (snd (handleCreateDonation (demo_env [Inr pending_status, Inr confirmed_status])
        (\<lambda>amountStr descr. Inr (JStr ''0xdata'')) ''1.5'' ''school'' []))))) = ''wallet_sendCalls''
     \<or> method' (hd (requests (added []
     (snd (handleCreateDonation (demo_env [Inr pending_status, Inr confirmed_status])
        (\<lambda>amountStr descr. Inr (JStr ''0xdata'')) ''1.5'' ''school'' []))))) = ''wallet_getCallsStatus'')"
  using only_two_rpc_methods
    [where env = "demo_env [Inr pending_status, Inr confirmed_status]" and tr = "[]"
       and encode = "\<lambda>amountStr descr. Inr (JStr ''0xdata'')" and amountStr = "''1.5''"
       and descr = "''school''",
     THEN conjunct2, THEN conjunct2, THEN conjunct2, THEN conjunct1, THEN conjunct2]
  by (simp add: demo_create_confirmed added_def)

section \<open>The contract hook\<close>

lemma bit_length_le: "bit_length m \<le> k \<longleftrightarrow> m < 2 ^ k"
proof (induction m arbitrary: k rule: bit_length.induct)
  case (1 n)
  show ?case
  proof (cases "n = 0")
    case True
    then show ?thesis by (subst bit_length.simps) simp
  next
    case False
    show ?thesis
    proof (cases k)
      case 0
      then show ?thesis using False by (subst bit_length.simps) simp
    next
      case (Suc k')
      have "bit_length n \<le> Suc k' \<longleftrightarrow> bit_length (n div 2) \<le> k'"
        using False by (subst bit_length.simps) simp
      also have "\<dots> \<longleftrightarrow> n div 2 < 2 ^ k'"
        using 1[OF False] by simp
      also have "\<dots> \<longleftrightarrow> n < 2 ^ Suc k'"
        by auto
      finally show ?thesis using Suc by simp
    qed
  qed
qed

lemma Number_exact: "\<bar>n\<bar> < 2 ^ 53 \<Longrightarrow> Number n = n"
proof -
  assume a: "\<bar>n\<bar> < 2 ^ 53"
  then have "nat \<bar>n\<bar> < 2 ^ 53"
    by (simp add: nat_less_iff)
  then have "bit_length (nat \<bar>n\<bar>) \<le> 53"
    by (simp only: bit_length_le)
  then show ?thesis by (simp only: Number_def Let_def if_True)
qed

lemma bit_length_eq: "2 ^ k \<le> m \<Longrightarrow> m < 2 ^ Suc k \<Longrightarrow> bit_length m = Suc k"
proof -
  assume a: "2 ^ k \<le> m" and b: "m < 2 ^ Suc k"
  have "bit_length m \<le> Suc k" using b by (simp only: bit_length_le)
  moreover have "\<not> bit_length m \<le> k" using a by (simp only: bit_length_le not_less)
  ultimately show ?thesis by simp
qed

lemma Number_ties_to_even:
  "Number 9007199254740993 = 9007199254740992 \<and> Number 9007199254740995 = 9007199254740996"
proof -
  have "bit_length 9007199254740993 = Suc 53" by (rule bit_length_eq) simp_all
  moreover have "bit_length 9007199254740995 = Suc 53" by (rule bit_length_eq) simp_all
  ultimately show ?thesis by (simp add: Number_def)
qed

lemma getDonation_pass_through:
  "getDonation client ident tr =
     (read_getDonation client tr ident, tr @ [ReadContract ''getDonation'' [ident]])"
  by (cases "read_getDonation client tr ident") (simp_all add: getDonation_def BigInt_def)

text \<open>
  C7. The read hooks pass the contract's answers through. \<open>getDonation(id)\<close> makes one
  read of \<open>getDonation\<close> with the argument \<open>id\<close>; when the read resolves, the result has
  the members \<open>targetAmount\<close>, \<open>totalDonated\<close> and \<open>timestamp\<close> of the answer as
  \<open>bigint\<close> and its \<open>creator\<close> and \<open>description\<close> unchanged, and when it rejects, the
  rejection is thrown. \<open>getTotalDonations\<close> makes one read of \<open>totalDonations\<close> and
  returns the answer as a number: the nearest double, which is the same integer below
  \<open>2^53\<close>. Neither makes a request to a wallet provider: the one event each adds to the
  trace is its read.
\<close>

theorem read_hooks_pass_through:
  "(read_getDonation client tr ident = Inr d \<longrightarrow>
      (\<exists>res. getDonation client ident tr = (Inr res, tr @ [ReadContract ''getDonation'' [ident]]) \<and>
         targetAmount res = targetAmount d \<and> totalDonated res = totalDonated d \<and>
         timestamp res = timestamp d \<and> creator res = creator d \<and>
         description res = description d))
   \<and>
   (read_getDonation client tr ident = Inl e \<longrightarrow>
      getDonation client ident tr = (Inl e, tr @ [ReadContract ''getDonation'' [ident]]))
   \<and>
   (read_totalDonations client tr = Inr n \<longrightarrow>
      getTotalDonations client tr = (Inr (Number n), tr @ [ReadContract ''totalDonations'' []]) \<and>
      (\<bar>n\<bar> < 2 ^ 53 \<longrightarrow> Number n = n))
   \<and>
   (read_totalDonations client tr = Inl e \<longrightarrow>
      getTotalDonations client tr = (Inl e, tr @ [ReadContract ''totalDonations'' []]))
   \<and> requests (added tr (snd (getDonation client ident tr))) = []
   \<and> requests (added tr (snd (getTotalDonations client tr))) = []"
proof (intro conjI impI)
  show "\<exists>res. getDonation client ident tr = (Inr res, tr @ [ReadContract ''getDonation'' [ident]]) \<and>
         targetAmount res = targetAmount d \<and> totalDonated res = totalDonated d \<and>
         timestamp res = timestamp d \<and> creator res = creator d \<and>
         description res = description d"
    if "read_getDonation client tr ident = Inr d"
    using that by (simp add: getDonation_def BigInt_def)
  show "getDonation client ident tr = (Inl e, tr @ [ReadContract ''getDonation'' [ident]])"
    if "read_getDonation client tr ident = Inl e"
    using that by (simp add: getDonation_def)
  show "getTotalDonations client tr = (Inr (Number n), tr @ [ReadContract ''totalDonations'' []])"
    if "read_totalDonations client tr = Inr n"
    using that by (simp add: getTotalDonations_def)
  show "Number n = n" if "\<bar>n\<bar> < 2 ^ 53"
    using that by (rule Number_exact)
  show "getTotalDonations client tr = (Inl e, tr @ [ReadContract ''totalDonations'' []])"
    if "read_totalDonations client tr = Inl e"
    using that by (simp add: getTotalDonations_def)
  show "requests (added tr (snd (getDonation client ident tr))) = []"
    by (simp add: getDonation_pass_through added_append)
  show "requests (added tr (snd (getTotalDonations client tr))) = []"
    by (cases "read_totalDonations client tr") (simp_all add: getTotalDonations_def added_append)
qed

theorem read_hooks_pass_through_witness:
  "getDonation demo_client 2 [] = (Inr (demo_donation 2), [ReadContract ''getDonation'' [2]])
   \<and> getDonation demo_client 1 [] =
       (Inl (JsError ''execution reverted''), [ReadContract ''getDonation'' [1]])
   \<and> getTotalDonations demo_client [] = (Inr 3, [ReadContract ''totalDonations'' []])"
proof -
  have "getDonation demo_client 2 [] = (Inr (demo_donation 2), [ReadContract ''getDonation'' [2]])"
    using read_hooks_pass_through
      [where client = demo_client and tr = "[]" and ident = 2 and d = "demo_donation 2",
       THEN conjunct1]
    by (auto simp: demo_client_def)
  moreover have "getDonation demo_client 1 [] =
       (Inl (JsError ''execution reverted''), [ReadContract ''getDonation'' [1]])"
    using read_hooks_pass_through
      [where client = demo_client and tr = "[]" and ident = 1 and e = "JsError ''execution reverted''",
       THEN conjunct2, THEN conjunct1]
    by (simp add: demo_client_def)
  moreover have "getTotalDonations demo_client [] = (Inr 3, [ReadContract ''totalDonations'' []])"
    using read_hooks_pass_through
      [where client = demo_client and tr = "[]" and n = 3,
       THEN conjunct2, THEN conjunct2, THEN conjunct1]
    by (simp add: demo_client_def)
  ultimately show ?thesis by blast
qed


section \<open>The list of donations\<close>

lemma read_events_Nil: "j \<le> i \<Longrightarrow> read_events i j = []"
  by (simp add: read_events_def)

lemma read_events_step: "i < j \<Longrightarrow>
    read_events i j = ReadContract ''getDonation'' [int i] # read_events (Suc i) j"
  by (simp add: read_events_def upt_conv_Cons)

lemma loaded_Nil: "j \<le> i \<Longrightarrow> loaded client tr i j = []"
  by (simp add: loaded_def)

lemma loaded_step:
  assumes "i < j"
  shows "loaded client tr i j =
     (case read_getDonation client tr (int i) of Inr d \<Rightarrow> [(int i, d)] | Inl _ \<Rightarrow> [])
     @ loaded client (tr @ [ReadContract ''getDonation'' [int i]]) (Suc i) j"
proof -
  have same: "tr @ read_events i k =
      (tr @ [ReadContract ''getDonation'' [int i]]) @ read_events (Suc i) k"
    if "k \<in> set [Suc i..<j]" for k
    using that by (simp add: read_events_step)
  have "concat (map (\<lambda>k. case read_getDonation client (tr @ read_events i k) (int k) of
                         Inr d \<Rightarrow> [(int k, d)] | Inl _ \<Rightarrow> []) [Suc i..<j]) =
        concat (map (\<lambda>k. case read_getDonation client
                              ((tr @ [ReadContract ''getDonation'' [int i]]) @ read_events (Suc i) k) (int k) of
                         Inr d \<Rightarrow> [(int k, d)] | Inl _ \<Rightarrow> []) [Suc i..<j])"
    using same by (intro arg_cong[of _ _ concat] map_cong refl) simp
  then show ?thesis
    using assms by (simp add: loaded_def upt_conv_Cons read_events_Nil)
qed

lemma load_loop_eq:
  "load_loop client total' i donationsList tr =
     (donationsList @ loaded client tr i (nat total'), tr @ read_events i (nat total'))"
proof (induction "nat total' - i" arbitrary: i donationsList tr)
  case 0
  then have "\<not> int i < total'" and "nat total' \<le> i" by linarith+
  then show ?case
    by (subst load_loop.simps) (simp add: loaded_Nil read_events_Nil)
next
  case (Suc m)
  then have lt: "int i < total'" and lt': "i < nat total'" and m: "m = nat total' - Suc i"
    by linarith+
  note IH = Suc.hyps(1)[OF m]
  show ?case
    using lt
    by (subst load_loop.simps)
       (cases "read_getDonation client tr (int i)";
        simp add: getDonation_pass_through BigInt_def IH loaded_step[OF lt'] read_events_step[OF lt'])
qed

lemma loaded_ids:
  "map fst (loaded client tr i j) =
     filter (\<lambda>k. \<exists>d. read_getDonation client (tr @ read_events i (nat k)) k = Inr d)
       (map int [i..<j])"
proof -
  have "map fst (concat (map f ks)) = filter P (map int ks)"
    if "\<And>k. k \<in> set ks \<Longrightarrow> map fst (f k) = (if P (int k) then [int k] else [])"
    for f :: "nat \<Rightarrow> (int \<times> Donation) list" and P ks
    using that by (induction ks) auto
  then show ?thesis
    unfolding loaded_def by (rule meta_mp) (auto split: sum.splits)
qed


lemma loadDonations_resolved:
  assumes "read_totalDonations client (tr @ [SetIsLoadingDonations True, SetListError []]) = Inr n"
  shows "loadDonations client tr =
      tr @ [SetIsLoadingDonations True, SetListError [], ReadContract ''totalDonations'' []]
         @ read_events 0 (nat (Number n))
         @ [SetDonations (rev (loaded client
               (tr @ [SetIsLoadingDonations True, SetListError [], ReadContract ''totalDonations'' []])
               0 (nat (Number n)))),
            SetIsLoadingDonations False]"
  using assms by (simp add: loadDonations_def getTotalDonations_def load_loop_eq)

lemma loadDonations_rejected:
  assumes "read_totalDonations client (tr @ [SetIsLoadingDonations True, SetListError []]) = Inl e"
  shows "loadDonations client tr =
      tr @ [SetIsLoadingDonations True, SetListError [], ReadContract ''totalDonations'' [],
            SetListError (message_or e ''Failed to load donations''), SetIsLoadingDonations False]"
  using assms by (simp add: loadDonations_def getTotalDonations_def)

lemma list_after_append: "list_after s (xs @ ys) = list_after (list_after s xs) ys"
  by (simp add: list_after_def)

lemma list_after_read_events: "list_after s (read_events i j) = s"
proof -
  have "foldl list_event s (map (\<lambda>k. ReadContract ''getDonation'' [int k]) ks) = s" for ks
    by (induction ks) simp_all
  then show ?thesis by (simp add: list_after_def read_events_def)
qed

text \<open>
  C9. \<open>loadDonations\<close> sets \<open>isLoadingDonations\<close> and clears the error, reads the total
  and then reads the donations \<open>0\<close> to \<open>total - 1\<close> in ascending order, every one of them
  whether or not an earlier read failed. What it stores is the list of the entries whose
  read succeeded, each with its id, in reversed order; the error state is then empty.
  Only when reading the total fails, the error state holds that failure's message (or
  \<open>Failed to load donations\<close>) and the stored list is as before. On both paths
  \<open>isLoadingDonations\<close> is false at the end.
\<close>

theorem loadDonations_behaviour:
  "(read_totalDonations client (tr @ [SetIsLoadingDonations True, SetListError []]) = Inr n \<longrightarrow>
      loadDonations client tr =
        tr @ [SetIsLoadingDonations True, SetListError [], ReadContract ''totalDonations'' []]
           @ read_events 0 (nat (Number n))
           @ [SetDonations (rev (loaded client
                 (tr @ [SetIsLoadingDonations True, SetListError [], ReadContract ''totalDonations'' []])
                 0 (nat (Number n)))),
              SetIsLoadingDonations False] \<and>
      donations (list_after s (added tr (loadDonations client tr))) =
        rev (loaded client
               (tr @ [SetIsLoadingDonations True, SetListError [], ReadContract ''totalDonations'' []])
               0 (nat (Number n))) \<and>
      listError (list_after s (added tr (loadDonations client tr))) = [] \<and>
      map fst (loaded client
               (tr @ [SetIsLoadingDonations True, SetListError [], ReadContract ''totalDonations'' []])
               0 (nat (Number n))) =
        filter (\<lambda>k. \<exists>d. read_getDonation client
                  ((tr @ [SetIsLoadingDonations True, SetListError [], ReadContract ''totalDonations'' []])
                     @ read_events 0 (nat k)) k = Inr d)
          (map int [0..<nat (Number n)]))
   \<and>
   (read_totalDonations client (tr @ [SetIsLoadingDonations True, SetListError []]) = Inl e \<longrightarrow>
      loadDonations client tr =
        tr @ [SetIsLoadingDonations True, SetListError [], ReadContract ''totalDonations'' [],
              SetListError (message_or e ''Failed to load donations''), SetIsLoadingDonations False] \<and>
      listError (list_after s (added tr (loadDonations client tr))) =
        message_or e ''Failed to load donations'' \<and>
      donations (list_after s (added tr (loadDonations client tr))) = donations s)
   \<and> isLoadingDonations (list_after s (added tr (loadDonations client tr))) = False"
proof (intro conjI impI)
  let ?tr1 = "tr @ [SetIsLoadingDonations True, SetListError [], ReadContract ''totalDonations'' []]"
  {
    assume ok: "read_totalDonations client (tr @ [SetIsLoadingDonations True, SetListError []]) = Inr n"
    note eq = loadDonations_resolved[OF ok]
    show "loadDonations client tr =
        tr @ [SetIsLoadingDonations True, SetListError [], ReadContract ''totalDonations'' []]
           @ read_events 0 (nat (Number n))
           @ [SetDonations (rev (loaded client ?tr1 0 (nat (Number n)))), SetIsLoadingDonations False]"
      by (rule eq)
    have after: "list_after s (added tr (loadDonations client tr)) =
        list_after (list_after (list_after s
          [SetIsLoadingDonations True, SetListError [], ReadContract ''totalDonations'' []])
          (read_events 0 (nat (Number n))))
          [SetDonations (rev (loaded client ?tr1 0 (nat (Number n)))), SetIsLoadingDonations False]"
      by (subst eq) (simp only: added_append list_after_append)
    show "donations (list_after s (added tr (loadDonations client tr))) =
        rev (loaded client ?tr1 0 (nat (Number n)))"
      unfolding after list_after_read_events by (simp add: list_after_def)
    show "listError (list_after s (added tr (loadDonations client tr))) = []"
      unfolding after list_after_read_events by (simp add: list_after_def)
    show "map fst (loaded client ?tr1 0 (nat (Number n))) =
        filter (\<lambda>k. \<exists>d. read_getDonation client (?tr1 @ read_events 0 (nat k)) k = Inr d)
          (map int [0..<nat (Number n)])"
      by (rule loaded_ids)
  }
  {
    assume bad: "read_totalDonations client (tr @ [SetIsLoadingDonations True, SetListError []]) = Inl e"
    note eq = loadDonations_rejected[OF bad]
    show "loadDonations client tr =
        tr @ [SetIsLoadingDonations True, SetListError [], ReadContract ''totalDonations'' [],
              SetListError (message_or e ''Failed to load donations''), SetIsLoadingDonations False]"
      by (rule eq)
    show "listError (list_after s (added tr (loadDonations client tr))) =
        message_or e ''Failed to load donations''"
      by (subst eq) (simp add: added_append list_after_def)
    show "donations (list_after s (added tr (loadDonations client tr))) = donations s"
      by (subst eq) (simp add: added_append list_after_def)
  }
  show "isLoadingDonations (list_after s (added tr (loadDonations client tr))) = False"
  proof (cases "read_totalDonations client (tr @ [SetIsLoadingDonations True, SetListError []])")
    case (Inl e)
    show ?thesis
      by (subst loadDonations_rejected[OF Inl]) (simp add: added_append list_after_def)
  next
    case (Inr n)
    have "list_after s (added tr (loadDonations client tr)) =
        list_after (list_after (list_after s
          [SetIsLoadingDonations True, SetListError [], ReadContract ''totalDonations'' []])
          (read_events 0 (nat (Number n))))
          [SetDonations (rev (loaded client ?tr1 0 (nat (Number n)))), SetIsLoadingDonations False]"
      by (subst loadDonations_resolved[OF Inr]) (simp only: added_append list_after_append)
    then show ?thesis
      unfolding list_after_read_events by (simp add: list_after_def)
  qed
qed

theorem loadDonations_behaviour_witness:
  "donations (list_after demo_list_state (added [] (loadDonations demo_client []))) =
     [(2, demo_donation 2), (0, demo_donation 0)]
   \<and> listError (list_after demo_list_state (added [] (loadDonations demo_client []))) = []
   \<and> isLoadingDonations (list_after demo_list_state (added [] (loadDonations demo_client []))) = False
   \<and> loadDonations demo_client [] =
       [SetIsLoadingDonations True, SetListError [], ReadContract ''totalDonations'' [],
        ReadContract ''getDonation'' [0], ReadContract ''getDonation'' [1],
        ReadContract ''getDonation'' [2],
        SetDonations [(2, demo_donation 2), (0, demo_donation 0)], SetIsLoadingDonations False]
   \<and> listError (list_after demo_list_state (added []
        (loadDonations (demo_client\<lparr>read_totalDonations := (\<lambda>tr. Inl (Thrown JNull))\<rparr>) []))) =
       ''Failed to load donations''"
proof -
  have n3: "nat (Number 3) = 3"
    by (simp add: Number_exact)
  have ld: "loaded demo_client tr 0 3 = [(0, demo_donation 0), (2, demo_donation 2)]" for tr
    by (simp add: loaded_def demo_client_def numeral_3_eq_3)
  have ev: "read_events 0 3 = [ReadContract ''getDonation'' [0], ReadContract ''getDonation'' [1],
        ReadContract ''getDonation'' [2]]"
    by (simp add: read_events_def numeral_3_eq_3)
  have ok: "read_totalDonations demo_client tr = Inr 3" for tr
    by (simp add: demo_client_def)
  have bad: "read_totalDonations (demo_client\<lparr>read_totalDonations := (\<lambda>tr. Inl (Thrown JNull))\<rparr>) tr
      = Inl (Thrown JNull)" for tr
    by simp
  note a = loadDonations_behaviour
        [where client = demo_client and tr = "[]" and n = 3 and s = demo_list_state,
         THEN conjunct1, rule_format, OF ok, unfolded n3 ld ev]
  note b = loadDonations_behaviour
        [where client = "demo_client\<lparr>read_totalDonations := (\<lambda>tr. Inl (Thrown JNull))\<rparr>"
           and tr = "[]" and e = "Thrown JNull" and s = demo_list_state,
         THEN conjunct2, THEN conjunct1, rule_format, OF bad]
  note c = loadDonations_behaviour
        [where client = demo_client and tr = "[]" and s = demo_list_state,
         THEN conjunct2, THEN conjunct2]
  have "donations (list_after demo_list_state (added [] (loadDonations demo_client []))) =
     [(2, demo_donation 2), (0, demo_donation 0)]"
    using a[THEN conjunct2, THEN conjunct1] by simp
  moreover have "listError (list_after demo_list_state (added [] (loadDonations demo_client []))) = []"
    using a by blast
  moreover have "isLoadingDonations (list_after demo_list_state (added [] (loadDonations demo_client []))) = False"
    using c by blast
  moreover have "loadDonations demo_client [] =
       [SetIsLoadingDonations True, SetListError [], ReadContract ''totalDonations'' [],
        ReadContract ''getDonation'' [0], ReadContract ''getDonation'' [1],
        ReadContract ''getDonation'' [2],
        SetDonations [(2, demo_donation 2), (0, demo_donation 0)], SetIsLoadingDonations False]"
    using a[THEN conjunct1] by simp
  moreover have "listError (list_after demo_list_state (added []
        (loadDonations (demo_client\<lparr>read_totalDonations := (\<lambda>tr. Inl (Thrown JNull))\<rparr>) []))) =
       ''Failed to load donations''"
    using b[THEN conjunct2, THEN conjunct1] by simp
  ultimately show ?thesis by blast
qed

section \<open>The progress bar\<close>

lemma js_min_not_above: "\<not> js_less (Fin c) (js_min x (Fin c))"
  by (cases x) simp_all

lemma Number_pos: "0 < n \<Longrightarrow> 0 < Number n"
proof -
  assume pos: "0 < n"
  define m where "m = nat \<bar>n\<bar>"
  define k where "k = bit_length m"
  define s where "s = k - 53"
  define q where "q = m div 2 ^ s"
  define q' where "q' = (if 2 ^ (s - 1) < m mod 2 ^ s \<or> (m mod 2 ^ s = 2 ^ (s - 1) \<and> odd q)
                         then q + 1 else q)"
  show ?thesis
  proof (cases "k \<le> 53")
    case True
    then show ?thesis using pos by (simp add: Number_def k_def m_def)
  next
    case False
    have eq: "Number n = sgn n * int (q' * 2 ^ s)"
      using False by (simp add: Number_def Let_def q'_def q_def s_def k_def m_def)
    have "\<not> bit_length m \<le> k - 1" using False by (simp add: k_def)
    then have big: "2 ^ (k - 1) \<le> m"
      by (simp only: bit_length_le not_less)
    have "(2::nat) ^ s \<le> 2 ^ (k - 1)"
      unfolding s_def by (rule power_increasing) simp_all
    then have "2 ^ s \<le> m" using big by linarith
    then have "0 < q"
      by (simp add: q_def div_greater_zero_iff)
    then have "0 < q'" by (simp add: q'_def)
    then have "0 < int (q' * 2 ^ s)" by simp
    then show ?thesis using pos by (simp only: eq sgn_pos mult_1)
  qed
qed

lemma Number_zero: "Number 0 = 0"
  by (simp add: Number_exact)

lemma progress_zero_target:
  "js_less (Fin 0) totalDonated' \<Longrightarrow> progress_of rd totalDonated' (Fin 0) = Fin 100"
  by (cases totalDonated') (simp_all add: progress_of_def)

text \<open>
  C10. The progress of a card is \<open>Math.min((totalDonated / targetAmount) * 100, 100)\<close>, so
  it never exceeds 100: for every donation, whatever the rounding, with a positive
  \<open>targetAmount\<close> in particular. The division is not guarded: with \<open>targetAmount\<close>
  zero and \<open>totalDonated\<close> positive (finite or not) the progress is exactly 100, and
  with both zero it is \<open>NaN\<close>. For the \<open>bigint\<close> members of the donation this holds
  as soon as the rounding keeps zero and gives a positive number for every real from
  \<open>10^-18\<close> on, as the rounding of doubles does.
\<close>

theorem progress_bounded_and_unguarded:
  "\<not> js_less (Fin 100) (progress_of rd totalDonated' targetAmount')
   \<and> (js_less (Fin 0) (card_targetAmount rd donation) \<longrightarrow>
        \<not> js_less (Fin 100) (card_progress rd donation))
   \<and> (js_less (Fin 0) totalDonated' \<longrightarrow> progress_of rd totalDonated' (Fin 0) = Fin 100)
   \<and> progress_of rd (Fin 0) (Fin 0) = NaN
   \<and> (rd 0 = Fin 0 \<and> (\<forall>x. 1 / 1000000000000000000 \<le> x \<longrightarrow> js_less (Fin 0) (rd x)) \<and>
       targetAmount donation = 0 \<and> 0 < totalDonated donation \<longrightarrow>
        card_progress rd donation = Fin 100)
   \<and> (rd 0 = Fin 0 \<and> targetAmount donation = 0 \<and> totalDonated donation = 0 \<longrightarrow>
        card_progress rd donation = NaN)"
proof (intro conjI impI)
  show "\<not> js_less (Fin 100) (progress_of rd totalDonated' targetAmount')"
    by (simp add: progress_of_def js_min_not_above)
  show "\<not> js_less (Fin 100) (card_progress rd donation)"
    by (simp add: card_progress_def progress_of_def js_min_not_above)
  show "progress_of rd totalDonated' (Fin 0) = Fin 100" if "js_less (Fin 0) totalDonated'"
    using that by (rule progress_zero_target)
  show "progress_of rd (Fin 0) (Fin 0) = NaN"
    by (simp add: progress_of_def)
  show "card_progress rd donation = Fin 100"
    if h: "rd 0 = Fin 0 \<and> (\<forall>x. 1 / 1000000000000000000 \<le> x \<longrightarrow> js_less (Fin 0) (rd x)) \<and>
       targetAmount donation = 0 \<and> 0 < totalDonated donation"
  proof -
    have ta: "card_targetAmount rd donation = Fin 0"
      using h by (simp add: card_targetAmount_def Number_zero)
    have "1 \<le> Number (totalDonated donation)"
      using Number_pos[of "totalDonated donation"] h by linarith
    then have "(1::real) \<le> real_of_int (Number (totalDonated donation))"
      by simp
    then have "1 / 1000000000000000000 \<le>
        real_of_int (Number (totalDonated donation)) / 1000000000000000000"
      by (simp add: divide_le_cancel)
    then have "js_less (Fin 0) (rd (real_of_int (Number (totalDonated donation)) / 1000000000000000000))"
      using h by blast
    then have "js_less (Fin 0) (card_totalDonated rd donation)"
      by (simp add: card_totalDonated_def)
    then show ?thesis
      unfolding card_progress_def ta by (rule progress_zero_target)
  qed
  show "card_progress rd donation = NaN"
    if "rd 0 = Fin 0 \<and> targetAmount donation = 0 \<and> totalDonated donation = 0"
    using that
    by (simp add: card_progress_def card_targetAmount_def card_totalDonated_def Number_zero
          progress_of_def)
qed

theorem progress_bounded_and_unguarded_witness:
  "card_progress Fin (demo_donation 2) = Fin 50
   \<and> \<not> js_less (Fin 100) (card_progress Fin (demo_donation 2))
   \<and> progress_of Fin (Fin (1 / 2)) (Fin 0) = Fin 100
   \<and> card_progress Fin ((demo_donation 2)\<lparr>targetAmount := 0\<rparr>) = Fin 100
   \<and> card_progress Fin ((demo_donation 0)\<lparr>targetAmount := 0\<rparr>) = NaN"
proof -
  have "bit_length 1000000000000000000 = Suc 59" by (rule bit_length_eq) simp_all
  then have n1: "Number 1000000000000000000 = 1000000000000000000"
    by (simp add: Number_def)
  have "bit_length 500000000000000000 = Suc 58" by (rule bit_length_eq) simp_all
  then have n2: "Number 500000000000000000 = 500000000000000000"
    by (simp add: Number_def)
  have "card_progress Fin (demo_donation 2) = Fin 50"
    by (simp add: card_progress_def card_targetAmount_def card_totalDonated_def
          progress_of_def demo_donation_def n1 n2)
  moreover have "\<not> js_less (Fin 100) (card_progress Fin (demo_donation 2))"
    using progress_bounded_and_unguarded
      [where rd = Fin and donation = "demo_donation 2", THEN conjunct2, THEN conjunct1]
    by (simp add: card_targetAmount_def demo_donation_def n1)
  moreover have "progress_of Fin (Fin (1 / 2)) (Fin 0) = Fin 100"
    using progress_bounded_and_unguarded
      [where rd = Fin and totalDonated' = "Fin (1 / 2)",
       THEN conjunct2, THEN conjunct2, THEN conjunct1]
    by simp
  moreover have "card_progress Fin ((demo_donation 2)\<lparr>targetAmount := 0\<rparr>) = Fin 100"
    using progress_bounded_and_unguarded
      [where rd = Fin and donation = "(demo_donation 2)\<lparr>targetAmount := 0\<rparr>",
       THEN conjunct2, THEN conjunct2, THEN conjunct2, THEN conjunct2, THEN conjunct1]
    by (simp add: demo_donation_def)
  moreover have "card_progress Fin ((demo_donation 0)\<lparr>targetAmount := 0\<rparr>) = NaN"
    using progress_bounded_and_unguarded
      [where rd = Fin and donation = "(demo_donation 0)\<lparr>targetAmount := 0\<rparr>",
       THEN conjunct2, THEN conjunct2, THEN conjunct2, THEN conjunct2, THEN conjunct2]
    by (simp add: demo_donation_def)
  ultimately show ?thesis by blast
qed

end
